theory Spec2Isabelle
  imports Main "HOL-Library.Sublist"
begin

section \<open>Values of the program\<close>

text \<open>
  A shallow embedding of \<^verbatim>\<open>lib/gmailpush.js\<close>. JavaScript strings are lists of
  \<^typ>\<open>char\<close>, read as code units in the range 0..255. A property that may be
  \<^verbatim>\<open>undefined\<close> is an \<^typ>\<open>'a option\<close>; a thrown exception or a rejected
  promise is the left injection of a sum. Numbers that hold history ids and expirations
  are integers.
\<close>

datatype error =
    Error (message: string)
  | TypeError (message: string)
  | SyntaxError (message: string)

text \<open>Truthiness of a string that may be undefined: \<^verbatim>\<open>if (nextPageToken)\<close>.\<close>

definition truthy :: "string option \<Rightarrow> bool" where
  "truthy t = (case t of None \<Rightarrow> False | Some s \<Rightarrow> s \<noteq> [])"

text \<open>\<^verbatim>\<open>Array.prototype.join\<close> on strings.\<close>

fun join :: "string \<Rightarrow> string list \<Rightarrow> string" where
  "join sep [] = []"
| "join sep [x] = x"
| "join sep (x # y # ys) = x @ sep @ join sep (y # ys)"

subsection \<open>The cursor store\<close>

text \<open>
  One element of the JSON array kept in \<^verbatim>\<open>prevHistoryIdFilePath\<close>:
  \<^verbatim>\<open>{emailAddress, prevHistoryId, watchExpiration}\<close>.
\<close>

record prevHistory =
  emailAddress :: string
  prevHistoryId :: int
  watchExpiration :: "int option"

text \<open>
  The file on disk: missing, unreadable (any failure of \<^verbatim>\<open>fs.readFile\<close> or
  \<^verbatim>\<open>JSON.parse\<close> other than a missing file, with the error it raises), or
  holding an array of records. A file that parses to anything else is not modelled.
\<close>

datatype store_file = Missing | Unreadable error | Stored "prevHistory list"

subsection \<open>Notifications\<close>

text \<open>
  The decoded payload of a push notification, \<^verbatim>\<open>{emailAddress, historyId}\<close>;
  \<open>n_historyId\<close> is \<^verbatim>\<open>Number(historyId)\<close>. A notification whose
  \<^verbatim>\<open>message.data\<close> does not decode to JSON is \<open>Undecodable\<close>, with the
  error that decoding throws.
\<close>

record push_payload =
  n_emailAddress :: string
  n_historyId :: int

datatype notification = Undecodable error | Envelope push_payload

type_synonym token = string

subsection \<open>The change log\<close>

text \<open>
  A reference \<^verbatim>\<open>{id, threadId}\<close> to a message is kept as its id. An element of
  \<^verbatim>\<open>labelsAdded\<close> or \<^verbatim>\<open>labelsRemoved\<close> is \<^verbatim>\<open>{message, labelIds}\<close>.
\<close>

type_synonym message_ref = string

record label_change =
  lc_message :: message_ref
  lc_labelIds :: "string list"

record historyEntry =
  h_id :: string
  messages :: "message_ref list option"
  messagesAdded :: "message_ref list option"
  messagesDeleted :: "message_ref list option"
  labelsAdded :: "label_change list option"
  labelsRemoved :: "label_change list option"

text \<open>\<^verbatim>\<open>historyEntry.hasOwnProperty(name)\<close>.\<close>

definition hasOwnProperty :: "historyEntry \<Rightarrow> string \<Rightarrow> bool" where
  "hasOwnProperty e p =
     (if p = ''id'' then True
      else if p = ''messages'' then messages e \<noteq> None
      else if p = ''messagesAdded'' then messagesAdded e \<noteq> None
      else if p = ''messagesDeleted'' then messagesDeleted e \<noteq> None
      else if p = ''labelsAdded'' then labelsAdded e \<noteq> None
      else if p = ''labelsRemoved'' then labelsRemoved e \<noteq> None
      else False)"

text \<open>The \<^verbatim>\<open>data\<close> of a response of \<^verbatim>\<open>users.history.list\<close>.\<close>

record history_page =
  nextPageToken :: "string option"
  history :: "historyEntry list option"

text \<open>The request object \<^verbatim>\<open>options\<close> built by \<^verbatim>\<open>_getHistory\<close>.\<close>

record history_request =
  userId :: "string option"
  startHistoryId :: "int option"
  pageToken :: "string option"

subsection \<open>Messages\<close>

text \<open>
  The document tree of a message (\<^verbatim>\<open>MessagePart\<close> of the provider's schema):
  \<^verbatim>\<open>{mimeType, filename, headers, body: {attachmentId, size, data}, parts}\<close>.
  The tree is typed as the schema documents it; a leaf has no parts.
\<close>

record header =
  h_name :: string
  h_value :: string

record part_body =
  attachmentId :: "string option"
  size_b :: int
  data :: "string option"

datatype part =
  Part (mimeType: string) (filename: string) (headers: "header list") (body: part_body)
    (parts: "part list")

record attachment =
  a_mimeType :: string
  a_filename :: string
  a_attachmentId :: "string option"
  a_size :: int
  a_data :: "string option"

record address =
  name :: "string option"
  address :: "string option"

text \<open>
  A message object: the provider's resource (\<open>m_id\<close>, \<open>labelIds\<close>,
  \<open>payload\<close>) and the properties the program adds to it. \<open>notFound\<close> is
  \<open>False\<close> where the property is absent.
\<close>

record gmail_message =
  m_id :: string
  labelIds :: "string list option"
  payload :: "part option"
  attachments :: "attachment list option"
  notFound :: bool
  historyType :: "string option"
  from_m :: "address option"
  to_m :: "address list option"
  cc_m :: "address list option"
  bcc_m :: "address list option"
  subject :: "string option"
  date :: "string option"
  bodyText :: "string option"
  bodyHtml :: "string option"

section \<open>The collaborators and the state\<close>

text \<open>
  The provider and the decoding library, as the answers they give:
  \<open>users_watch\<close> is \<^verbatim>\<open>gmail.users.watch\<close> followed by
  \<^verbatim>\<open>Number(result.data.expiration)\<close>, with arguments \<^verbatim>\<open>userId\<close> and
  \<^verbatim>\<open>topicName\<close>; \<open>users_history_list\<close> and \<open>users_messages_get\<close>
  (arguments \<^verbatim>\<open>id\<close>, \<^verbatim>\<open>userId\<close>) give the \<^verbatim>\<open>data\<close> of the response;
  \<open>users_messages_attachments_get\<close> (arguments \<^verbatim>\<open>id\<close>, \<^verbatim>\<open>messageId\<close>,
  \<^verbatim>\<open>userId\<close>) gives \<^verbatim>\<open>data.data\<close>; \<open>base64\<close> is
  \<^verbatim>\<open>Buffer.from(_, 'base64')\<close>. Requests that run at the same time answer in an
  order that the timing decides: of \<open>k\<close> rejections that \<^verbatim>\<open>Promise.all\<close> waits
  for, the one at position \<open>first_rejection k mod k\<close> happens first.
\<close>

record env =
  users_watch :: "string option \<Rightarrow> string \<Rightarrow> error + int"
  users_history_list :: "history_request \<Rightarrow> error + history_page"
  users_messages_get :: "string \<Rightarrow> string option \<Rightarrow> error + gmail_message"
  users_messages_attachments_get ::
    "string option \<Rightarrow> string \<Rightarrow> string option \<Rightarrow> error + string"
  base64 :: "string \<Rightarrow> string"
  first_rejection :: "nat \<Rightarrow> nat"

text \<open>
  \<^verbatim>\<open>this._api\<close>. The constructor sets \<open>prevHistoryIdFilePath\<close>,
  \<open>prevHistories\<close> (to the empty array) and \<open>pubsubTopic\<close>; every other
  property is undefined until a method assigns it.
\<close>

record api =
  prevHistoryIdFilePath :: string
  prevHistories :: "prevHistory list"
  pubsubTopic :: string
  credentials :: "token option"
  api_emailAddress :: "string option"
  api_startHistoryId :: "int option"
  api_historyTypes :: "string list option"
  api_addedLabelIds :: "string list option"
  api_removedLabelIds :: "string list option"
  api_withLabelIds :: "string list option"
  api_withoutLabelIds :: "string list option"

text \<open>
  The constructor, for options that pass its validation: \<^verbatim>\<open>pubsubTopic\<close> and the
  optional \<^verbatim>\<open>prevHistoryIdFilePath\<close> (the OAuth2 client is not modelled).
\<close>

definition DEFAULT_HISTORY_ID_FILE_PATH :: string where
  "DEFAULT_HISTORY_ID_FILE_PATH = ''gmailpush_history.json''"

definition Gmailpush :: "string \<Rightarrow> string option \<Rightarrow> api" where
  "Gmailpush topic path =
     \<lparr>prevHistoryIdFilePath =
        (case path of
           Some p \<Rightarrow> if p = [] then DEFAULT_HISTORY_ID_FILE_PATH else p
         | None \<Rightarrow> DEFAULT_HISTORY_ID_FILE_PATH),
      prevHistories = [],
      pubsubTopic = topic,
      credentials = None,
      api_emailAddress = None,
      api_startHistoryId = None,
      api_historyTypes = None,
      api_addedLabelIds = None,
      api_removedLabelIds = None,
      api_withLabelIds = None,
      api_withoutLabelIds = None\<rparr>"

text \<open>The requests and file accesses a call makes, in the order it makes them.\<close>

datatype event =
    ReadFile string
  | WriteFile string "prevHistory list"
  | Watch "string option" string
  | HistoryList history_request
  | MessagesGet string "string option"
  | AttachmentsGet "string option" string "string option"

text \<open>
  The state a call runs in and leaves behind: the instance, the file as a read finds
  it, the writes of the file that have been started and not carried out yet (the data of
  each, oldest first), and the trace of input and output so far.
\<close>

record world =
  this_api :: api
  disk :: store_file
  pending :: "prevHistory list list"
  io :: "event list"

section \<open>The reconciliation controller\<close>

text \<open>
  \<^verbatim>\<open>_parseNotificationPayload\<close>: the decoded payload, or the error that
  \<^verbatim>\<open>JSON.parse\<close> or \<^verbatim>\<open>Buffer.from\<close> throws.
\<close>

definition parseNotificationPayload :: "notification \<Rightarrow> error + push_payload" where
  "parseNotificationPayload n = (case n of Undecodable err \<Rightarrow> Inl err | Envelope p \<Rightarrow> Inr p)"

definition getEmailAddress :: "notification option \<Rightarrow> error + string" where
  "getEmailAddress n =
     (case n of
        None \<Rightarrow> Inl (Error ''getEmailAddress() requires an argument: notification'')
      | Some m \<Rightarrow>
          (case parseNotificationPayload m of
             Inl err \<Rightarrow> Inl err
           | Inr p \<Rightarrow> Inr (n_emailAddress p)))"

text \<open>
  \<^verbatim>\<open>_getHistoryId\<close>. The source calls it with the notification that
  \<^verbatim>\<open>getEmailAddress\<close> has decoded before, so its \<open>None\<close> case (a
  \<^verbatim>\<open>TypeError\<close> on \<^verbatim>\<open>undefined.message\<close>) is not reached.
\<close>

definition getHistoryId :: "notification option \<Rightarrow> error + int" where
  "getHistoryId n =
     (case n of
        None \<Rightarrow> Inl (TypeError ''Cannot read properties of undefined (reading message)'')
      | Some m \<Rightarrow>
          (case parseNotificationPayload m of
             Inl err \<Rightarrow> Inl err
           | Inr p \<Rightarrow> Inr (n_historyId p)))"

text \<open>
  \<^verbatim>\<open>JSON.parse(await fs.readFile(path))\<close>: a missing file rejects with the
  message \<^verbatim>\<open>ENOENT: no such file or directory, open '<path>'\<close>.
\<close>

definition readFile :: "string \<Rightarrow> store_file \<Rightarrow> error + prevHistory list" where
  "readFile path f =
     (case f of
        Missing \<Rightarrow>
          Inl (Error (''ENOENT: no such file or directory, open '' @ [CHR 0x27] @ path @ [CHR 0x27]))
      | Unreadable err \<Rightarrow> Inl err
      | Stored hs \<Rightarrow> Inr hs)"

text \<open>
  An assignment to a property of the object that \<^verbatim>\<open>Array.prototype.find\<close>
  returned: the first element that satisfies the predicate changes in place.
\<close>

fun update_first :: "('a \<Rightarrow> bool) \<Rightarrow> ('a \<Rightarrow> 'a) \<Rightarrow> 'a list \<Rightarrow> 'a list" where
  "update_first P f [] = []"
| "update_first P f (x # xs) = (if P x then f x # xs else x # update_first P f xs)"

text \<open>
  The \<^verbatim>\<open>try\<close> and \<^verbatim>\<open>catch\<close> of lines 93 to 107, as the array that
  \<^verbatim>\<open>this._api.prevHistories\<close> holds after it: the content of the file, or, when
  the read fails with "no such file", the array the instance held with a record seeded
  from the notification pushed to it. Any other failure is thrown.
\<close>

definition loadPrevHistories ::
  "notification option \<Rightarrow> string \<Rightarrow> api \<Rightarrow> store_file \<Rightarrow> error + prevHistory list" where
  "loadPrevHistories n addr A f =
     (case readFile (prevHistoryIdFilePath A) f of
        Inr hs \<Rightarrow> Inr hs
      | Inl err \<Rightarrow>
          if prefix ''ENOENT: no such file or directory'' (message err)
          then (case getHistoryId n of
                  Inl err' \<Rightarrow> Inl err'
                | Inr hid \<Rightarrow>
                    Inr (prevHistories A @
                      [\<lparr>emailAddress = addr, prevHistoryId = hid, watchExpiration = None\<rparr>]))
          else Inl err)"

text \<open>
  \<^verbatim>\<open>_initialize\<close> (lines 85 to 136). The result is the value the promise
  resolves to, or the error it rejects with, and the state left behind.
  \<^verbatim>\<open>fs.writeFile\<close> is called and not awaited (lines 119 and 129): the call
  returns with the write pending, and the file changes only when the file system carries
  the write out (\<open>fs_truncate\<close> and \<open>fs_land\<close> below). When \<^verbatim>\<open>find\<close> returns \<^verbatim>\<open>undefined\<close>, the right-hand side
  \<^verbatim>\<open>await this._refreshWatch()\<close> is evaluated first and the assignment to
  \<^verbatim>\<open>prevHistory.watchExpiration\<close> then throws a \<^verbatim>\<open>TypeError\<close>.
\<close>

definition initialize ::
  "env \<Rightarrow> notification option \<Rightarrow> token option \<Rightarrow> world \<Rightarrow> (error + bool) \<times> world" where
  "initialize E n tok W =
     (let A0 = (this_api W)\<lparr>credentials := tok\<rparr> in
      case getEmailAddress n of
        Inl err \<Rightarrow> (Inl err, W\<lparr>this_api := A0\<rparr>)
      | Inr addr \<Rightarrow>
         (let A1 = A0\<lparr>api_emailAddress := Some addr\<rparr>;
              path = prevHistoryIdFilePath A1;
              io1 = io W @ [ReadFile path]
          in case loadPrevHistories n addr A1 (disk W) of
               Inl err \<Rightarrow> (Inl err, W\<lparr>this_api := A1, io := io1\<rparr>)
             | Inr hs \<Rightarrow>
                (let A2 = A1\<lparr>prevHistories := hs\<rparr>;
                     mine = (\<lambda>h. emailAddress h = addr);
                     prevHistory = find mine hs;
                     io2 = io1 @ [Watch (api_emailAddress A2) (pubsubTopic A2)]
                 in case users_watch E (api_emailAddress A2) (pubsubTopic A2) of
                      Inl err \<Rightarrow> (Inl err, W\<lparr>this_api := A2, io := io2\<rparr>)
                    | Inr expiration \<Rightarrow>
                       (case prevHistory of
                          None \<Rightarrow>
                            (Inl (TypeError
                               ''Cannot set properties of undefined (setting watchExpiration)''),
                             W\<lparr>this_api := A2, io := io2\<rparr>)
                        | Some ph \<Rightarrow>
                           (let hs1 = update_first mine
                                        (\<lambda>h. h\<lparr>watchExpiration := Some expiration\<rparr>) hs
                            in case getHistoryId n of
                                 Inl err \<Rightarrow>
                                   (Inl err, W\<lparr>this_api := A2\<lparr>prevHistories := hs1\<rparr>, io := io2\<rparr>)
                               | Inr hid \<Rightarrow>
                                   if hid \<le> prevHistoryId ph
                                   then (Inr False,
                                         W\<lparr>this_api := A2\<lparr>prevHistories := hs1\<rparr>,
                                           pending := pending W @ [hs1],
                                           io := io2 @ [WriteFile path hs1]\<rparr>)
                                   else
                                     (let hs2 = update_first mine
                                                  (\<lambda>h. h\<lparr>prevHistoryId := hid\<rparr>) hs1
                                      in (Inr True,
                                          W\<lparr>this_api := A2\<lparr>prevHistories := hs2,
                                                 api_startHistoryId := Some (prevHistoryId ph)\<rparr>,
                                            pending := pending W @ [hs2],
                                            io := io2 @ [WriteFile path hs2]\<rparr>)))))))"

text \<open>
  The file system carries a pending write out in two steps: it opens the file, which
  empties it, so that a read finds no JSON text and \<^verbatim>\<open>JSON.parse\<close> throws; then
  it writes the data. \<open>fs_truncate\<close> is the first step of the oldest pending write,
  \<open>fs_land\<close> its completion. Until then a read finds the older content.
\<close>

definition fs_truncate :: "world \<Rightarrow> world" where
  "fs_truncate W =
     (case pending W of
        [] \<Rightarrow> W
      | d # ds \<Rightarrow> W\<lparr>disk := Unreadable (SyntaxError ''Unexpected end of JSON input'')\<rparr>)"

definition fs_land :: "world \<Rightarrow> world" where
  "fs_land W =
     (case pending W of
        [] \<Rightarrow> W
      | d # ds \<Rightarrow> W\<lparr>disk := Stored d, pending := ds\<rparr>)"

section \<open>The change-log fetcher\<close>

text \<open>
  \<^verbatim>\<open>_getHistory\<close> (lines 149 to 168). The provider decides how many pages
  there are, so the recursion need not end: the function is partial, and \<open>None\<close> is
  a call that never returns.
\<close>

partial_function (option) getHistory ::
  "env \<Rightarrow> string option \<Rightarrow> world \<Rightarrow> ((error + historyEntry list) \<times> world) option" where
  "getHistory E token W =
     (let options = \<lparr>userId = api_emailAddress (this_api W),
                      startHistoryId = api_startHistoryId (this_api W),
                      pageToken = (if truthy token then token else None)\<rparr>;
          W1 = W\<lparr>io := io W @ [HistoryList options]\<rparr>
      in case users_history_list E options of
           Inl err \<Rightarrow> Some (Inl err, W1)
         | Inr page \<Rightarrow>
             if truthy (nextPageToken page)
             then Option.bind (getHistory E (nextPageToken page) W1)
                    (\<lambda>(r, W2). Some (case r of Inl err \<Rightarrow> Inl err | Inr rest \<Rightarrow> Inr ([] @ rest), W2))
             else Some (Inr (case history page of Some h \<Rightarrow> h | None \<Rightarrow> []), W1))"

section \<open>Options\<close>

text \<open>
  The options object of the retrieval entry points: the known keys, each absent or
  holding a value of its documented type, and the names of any other keys present.
\<close>

record options =
  notification :: "notification option"
  token :: "token option"
  historyTypes :: "string list option"
  addedLabelIds :: "string list option"
  removedLabelIds :: "string list option"
  withLabelIds :: "string list option"
  withoutLabelIds :: "string list option"
  otherKeys :: "string list"

record rules =
  required :: "string list"
  optional :: "string list option"

definition VALID_HISTORY_TYPES :: "string list" where
  "VALID_HISTORY_TYPES = [''messageAdded'', ''messageDeleted'', ''labelAdded'', ''labelRemoved'']"

text \<open>\<^verbatim>\<open>Object.keys(options)\<close>.\<close>

definition keys :: "options \<Rightarrow> string list" where
  "keys opts =
     (if notification opts \<noteq> None then [''notification''] else []) @
     (if token opts \<noteq> None then [''token''] else []) @
     (if historyTypes opts \<noteq> None then [''historyTypes''] else []) @
     (if addedLabelIds opts \<noteq> None then [''addedLabelIds''] else []) @
     (if removedLabelIds opts \<noteq> None then [''removedLabelIds''] else []) @
     (if withLabelIds opts \<noteq> None then [''withLabelIds''] else []) @
     (if withoutLabelIds opts \<noteq> None then [''withoutLabelIds''] else []) @
     otherKeys opts"

text \<open>
  \<^verbatim>\<open>_getPropsFromOptions\<close> (lines 603 to 639); \<open>None\<close> is a call without
  options.
\<close>

definition getPropsFromOptions :: "options option \<Rightarrow> rules \<Rightarrow> error + options" where
  "getPropsFromOptions options rules =
     (case options of
        None \<Rightarrow> Inl (Error (''Options must have '' @ join '', '' (required rules)))
      | Some opts \<Rightarrow>
          (let allowed = required rules @ (case optional rules of Some os \<Rightarrow> os | None \<Rightarrow> []);
               unexpectedOptionValues = filter (\<lambda>v. v \<notin> set allowed) (keys opts);
               omittedRequiredOptionValues = filter (\<lambda>v. v \<notin> set (keys opts)) (required rules)
           in if length unexpectedOptionValues > 0
              then Inl (Error (''Options may only contain the following: '' @ join '', '' allowed))
              else if length omittedRequiredOptionValues > 0
              then Inl (Error (''Options must have the following: '' @
                          join '', '' omittedRequiredOptionValues))
              else Inr opts))"

text \<open>
  \<^verbatim>\<open>_setApiPropertiesWithProps\<close> (lines 663 to 709). The instance keeps the
  assignments made before a throw. \<^verbatim>\<open>props.historyTypes.includes\<close> on an absent
  \<^verbatim>\<open>historyTypes\<close> throws a \<^verbatim>\<open>TypeError\<close>.
\<close>

definition setApiPropertiesWithProps :: "options \<Rightarrow> api \<Rightarrow> (error + unit) \<times> api" where
  "setApiPropertiesWithProps props A =
     (if (case historyTypes props of
            Some hts \<Rightarrow> length (filter (\<lambda>t. t \<notin> set VALID_HISTORY_TYPES) hts) > 0
          | None \<Rightarrow> False)
      then (Inl (Error (''historyTypes option may only contain the following: '' @
                   join '', '' VALID_HISTORY_TYPES)), A)
      else
        (let A1 = A\<lparr>api_historyTypes :=
                      Some (case historyTypes props of Some hts \<Rightarrow> hts | None \<Rightarrow> VALID_HISTORY_TYPES)\<rparr>;
             notIncluded = (\<lambda>t. case historyTypes props of
                                Some hts \<Rightarrow> if t \<in> set hts then Inr False else Inr True
                              | None \<Rightarrow> Inl (TypeError
                                  ''Cannot read properties of undefined (reading includes)''));
             added =
               (case addedLabelIds props of
                  None \<Rightarrow> (Inr (), A1)
                | Some ids \<Rightarrow>
                    (case notIncluded ''labelAdded'' of
                       Inl err \<Rightarrow> (Inl err, A1)
                     | Inr True \<Rightarrow>
                         (Inl (Error ''addedLabelIds option should be used with labelAdded historyType''),
                          A1)
                     | Inr False \<Rightarrow> (Inr (), A1\<lparr>api_addedLabelIds := Some ids\<rparr>)))
         in case added of
              (Inl err, A2) \<Rightarrow> (Inl err, A2)
            | (Inr u, A2) \<Rightarrow>
               (let removed =
                      (case removedLabelIds props of
                         None \<Rightarrow> (Inr (), A2)
                       | Some ids \<Rightarrow>
                           (case notIncluded ''labelRemoved'' of
                              Inl err \<Rightarrow> (Inl err, A2)
                            | Inr True \<Rightarrow>
                                (Inl (Error
                                   ''removedLabelIds option should be used with labelRemoved historyType''),
                                 A2)
                            | Inr False \<Rightarrow> (Inr (), A2\<lparr>api_removedLabelIds := Some ids\<rparr>)))
                in case removed of
                     (Inl err, A3) \<Rightarrow> (Inl err, A3)
                   | (Inr u, A3) \<Rightarrow>
                      (let A4 = (case withLabelIds props of
                                   Some ids \<Rightarrow> A3\<lparr>api_withLabelIds := Some ids\<rparr>
                                 | None \<Rightarrow> A3);
                           A5 = (case withoutLabelIds props of
                                   Some ids \<Rightarrow> A4\<lparr>api_withoutLabelIds := Some ids\<rparr>
                                 | None \<Rightarrow> A4)
                       in (Inr (), A5)))))"

section \<open>The change filter\<close>

text \<open>
  \<^verbatim>\<open>_makeHistoryTypePlural\<close>: \<^verbatim>\<open>historyType.replace(/^message|label/, '$&s')\<close>.
  The first match of the pattern is \<^verbatim>\<open>message\<close> at the start of the string, or
  else the leftmost \<^verbatim>\<open>label\<close>; an \<^verbatim>\<open>s\<close> is put after it.
\<close>

fun replace_label :: "string \<Rightarrow> string" where
  "replace_label [] = []"
| "replace_label (c # cs) =
     (if prefix ''label'' (c # cs) then ''labels'' @ drop 5 (c # cs) else c # replace_label cs)"

definition makeHistoryTypePlural :: "string \<Rightarrow> string" where
  "makeHistoryTypePlural ht =
     (if prefix ''message'' ht then ''messages'' @ drop 7 ht
      else replace_label ht)"

text \<open>
  The first loop of \<^verbatim>\<open>_filterHistory\<close> (lines 179 to 194): for each history type
  in turn, the entries that have the property of that type are appended.
\<close>

definition filteredWithHistoryTypes :: "string list \<Rightarrow> historyEntry list \<Rightarrow> historyEntry list" where
  "filteredWithHistoryTypes hts hist =
     foldl (\<lambda>acc ht.
              acc @ filter (\<lambda>historyEntry. hasOwnProperty historyEntry (makeHistoryTypePlural ht)) hist)
       [] hts"

text \<open>
  The callback of the second filter (lines 198 to 229): \<open>False\<close> when the added (or
  removed) label ids are set, the entry has \<^verbatim>\<open>labelsAdded\<close> (or
  \<^verbatim>\<open>labelsRemoved\<close>), and no element of it includes one of the label ids.
\<close>

definition includesAny :: "string list \<Rightarrow> label_change \<Rightarrow> bool" where
  "includesAny ids change = list_ex (\<lambda>labelId. labelId \<in> set (lc_labelIds change)) ids"

definition passesLabelIds :: "api \<Rightarrow> historyEntry \<Rightarrow> bool" where
  "passesLabelIds A historyEntry =
     (if (case (api_addedLabelIds A, labelsAdded historyEntry) of
            (Some ids, Some changes) \<Rightarrow> length (filter (includesAny ids) changes) = 0
          | _ \<Rightarrow> False)
      then False
      else if (case (api_removedLabelIds A, labelsRemoved historyEntry) of
            (Some ids, Some changes) \<Rightarrow> length (filter (includesAny ids) changes) = 0
          | _ \<Rightarrow> False)
      then False
      else True)"

text \<open>
  \<^verbatim>\<open>_filterHistory\<close> (lines 178 to 233). Iterating over an undefined
  \<^verbatim>\<open>this._api.historyTypes\<close> throws a \<^verbatim>\<open>TypeError\<close>.
\<close>

definition filterHistory :: "api \<Rightarrow> historyEntry list \<Rightarrow> error + historyEntry list" where
  "filterHistory A hist =
     (case api_historyTypes A of
        None \<Rightarrow> Inl (TypeError ''this._api.historyTypes is not iterable'')
      | Some hts \<Rightarrow> Inr ([] @ filter (passesLabelIds A) (filteredWithHistoryTypes hts hist)))"

section \<open>The record resolver and the record filter\<close>

text \<open>\<^verbatim>\<open>_getMessageFromId\<close> (lines 243 to 264).\<close>

definition getMessageFromId :: "env \<Rightarrow> string \<Rightarrow> world \<Rightarrow> (error + gmail_message) \<times> world" where
  "getMessageFromId E messageId W =
     (let W1 = W\<lparr>io := io W @ [MessagesGet messageId (api_emailAddress (this_api W))]\<rparr>
      in case users_messages_get E messageId (api_emailAddress (this_api W)) of
           Inr result \<Rightarrow> (Inr result, W1)
         | Inl err \<Rightarrow>
             if message err = ''Not Found''
             then (Inr \<lparr>m_id = messageId, labelIds = None, payload = None,
                        attachments = Some [], notFound = True, historyType = None,
                        from_m = None, to_m = None, cc_m = None, bcc_m = None,
                        subject = None, date = None, bodyText = None, bodyHtml = None\<rparr>, W1)
             else (Inl err, W1))"

text \<open>\<^verbatim>\<open>_filterMessage\<close> (lines 273 to 313).\<close>

definition filterMessage :: "api \<Rightarrow> gmail_message \<Rightarrow> error + bool" where
  "filterMessage A m =
     (if (case (api_withLabelIds A, api_withoutLabelIds A) of
            (Some w, Some wo) \<Rightarrow> length (filter (\<lambda>labelId. labelId \<in> set wo) w) > 0
          | _ \<Rightarrow> False)
      then Inl (Error ''withLabelIds and withoutLabelIds should not have the same labelId'')
      else if labelIds m = None \<and> api_withLabelIds A \<noteq> None then Inr False
      else if (case (labelIds m, api_withLabelIds A) of
                 (Some ls, Some w) \<Rightarrow> length (filter (\<lambda>withLabelId. withLabelId \<in> set ls) w) = 0
               | _ \<Rightarrow> False)
      then Inr False
      else if (case (labelIds m, api_withoutLabelIds A) of
                 (Some ls, Some wo) \<Rightarrow>
                   length (filter (\<lambda>withoutLabelId. withoutLabelId \<in> set ls) wo) > 0
               | _ \<Rightarrow> False)
      then Inr False
      else Inr True)"

section \<open>The document parser\<close>

subsection \<open>Regular expressions\<close>

text \<open>
  The part of the pattern language that \<^verbatim>\<open>_parseEmailAddressHeader\<close> uses, with
  the backtracking semantics of the language: a literal character, \<^verbatim>\<open>.\<close>,
  \<^verbatim>\<open>\s\<close>, a negated one-character class, sequence, the greedy quantifiers
  \<^verbatim>\<open>?\<close>, \<^verbatim>\<open>*\<close> and \<^verbatim>\<open>+\<close>, and a numbered capture group. A
  non-capturing group is the pattern inside it.
\<close>

datatype rx =
    Chr char
  | Dot
  | WhiteSpace
  | NotChr char
  | Seq rx rx
  | Opt rx
  | Star rx
  | Grp nat rx

definition Plus :: "rx \<Rightarrow> rx" where
  "Plus r = Seq r (Star r)"

text \<open>
  Among the code units 0..255: the line terminators, which \<^verbatim>\<open>.\<close> does not match,
  and the white space that \<^verbatim>\<open>\s\<close> matches.
\<close>

definition isLineTerminator :: "char \<Rightarrow> bool" where
  "isLineTerminator x = (x = CHR 0x0A \<or> x = CHR 0x0D)"

definition isWhiteSpace :: "char \<Rightarrow> bool" where
  "isWhiteSpace x =
     (x \<in> set [CHR 0x09, CHR 0x0A, CHR 0x0B, CHR 0x0C, CHR 0x0D, CHR 0x20, CHR 0xA0])"

type_synonym captures = "(nat \<times> string) list"

text \<open>
  \<open>matches r s c\<close> lists every way \<open>r\<close> matches a prefix of \<open>s\<close>, as the rest
  of the input and the captures, in the order a backtracking matcher tries them: a
  greedy quantifier tries one more iteration before it tries to stop, and an iteration
  that consumes nothing is not taken. The capture made last is first in the list.
\<close>

fun matches :: "rx \<Rightarrow> string \<Rightarrow> captures \<Rightarrow> (string \<times> captures) list" where
  "matches (Chr a) s c = (case s of [] \<Rightarrow> [] | x # xs \<Rightarrow> if x = a then [(xs, c)] else [])"
| "matches Dot s c =
     (case s of [] \<Rightarrow> [] | x # xs \<Rightarrow> if isLineTerminator x then [] else [(xs, c)])"
| "matches WhiteSpace s c =
     (case s of [] \<Rightarrow> [] | x # xs \<Rightarrow> if isWhiteSpace x then [(xs, c)] else [])"
| "matches (NotChr a) s c = (case s of [] \<Rightarrow> [] | x # xs \<Rightarrow> if x = a then [] else [(xs, c)])"
| "matches (Seq r1 r2) s c = concat (map (\<lambda>(s', c'). matches r2 s' c') (matches r1 s c))"
| "matches (Opt r) s c = filter (\<lambda>(s', c'). length s' < length s) (matches r s c) @ [(s, c)]"
| "matches (Star r) s c =
     concat (map (\<lambda>(s', c'). if length s' < length s then matches (Star r) s' c' else [])
               (matches r s c)) @ [(s, c)]"
| "matches (Grp n r) s c =
     map (\<lambda>(s', c'). (s', (n, take (length s - length s') s) # c')) (matches r s c)"

declare matches.simps(7) [simp del]

text \<open>The patterns that match exactly one character.\<close>

definition atom :: "rx \<Rightarrow> bool" where
  "atom r =
     (case r of Chr a \<Rightarrow> True | Dot \<Rightarrow> True | WhiteSpace \<Rightarrow> True | NotChr a \<Rightarrow> True | _ \<Rightarrow> False)"

text \<open>
  \<^verbatim>\<open>String.prototype.match\<close> with a pattern without the global flag: the first
  match at the leftmost position that has one, as its captures; \<open>None\<close> is
  \<^verbatim>\<open>null\<close>.
\<close>

fun search :: "rx \<Rightarrow> string \<Rightarrow> captures option" where
  "search r s =
     (case matches r s [] of
        (s', c) # rest \<Rightarrow> Some c
      | [] \<Rightarrow> (case s of [] \<Rightarrow> None | x # xs \<Rightarrow> search r xs))"

declare search.simps [simp del]

text \<open>
  The pattern \<^verbatim>\<open>/(?:(.*)\s)?(?:<?(.+@[^>]+)>?)/\<close>; \<open>addr_rx\<close> is the inside
  of its second group, \<^verbatim>\<open>.+@[^>]+\<close>.
\<close>

definition addr_rx :: rx where
  "addr_rx = Seq (Plus Dot) (Seq (Chr CHR ''@'') (Plus (NotChr CHR ''>'')))"

definition email_rx :: rx where
  "email_rx =
     Seq (Opt (Seq (Grp 1 (Star Dot)) WhiteSpace))
       (Seq (Opt (Chr CHR ''<'')) (Seq (Grp 2 addr_rx) (Opt (Chr CHR ''>''))))"

text \<open>\<^verbatim>\<open>a || b\<close> on strings that may be undefined.\<close>

definition js_or :: "string option \<Rightarrow> string option \<Rightarrow> string option" where
  "js_or a b = (if truthy a then a else b)"

text \<open>
  \<^verbatim>\<open>_parseEmailAddressHeader\<close> (lines 756 to 772); \<open>map_of parsedHeader n\<close> is
  \<^verbatim>\<open>parsedHeader[n]\<close>.
\<close>

definition parseEmailAddressHeader :: "string \<Rightarrow> address" where
  "parseEmailAddressHeader emailAddressHeader =
     (case search email_rx emailAddressHeader of
        Some parsedHeader \<Rightarrow>
          \<lparr>name = js_or (map_of parsedHeader 1) (map_of parsedHeader 2),
           address = map_of parsedHeader 2\<rparr>
      | None \<Rightarrow> \<lparr>name = Some emailAddressHeader, address = Some emailAddressHeader\<rparr>)"

subsection \<open>Messages\<close>

text \<open>\<^verbatim>\<open>String.prototype.split\<close> with a separator that is not empty.\<close>

fun split :: "string \<Rightarrow> string \<Rightarrow> string list" where
  "split sep [] = [[]]"
| "split sep (c # cs) =
     (if sep \<noteq> [] \<and> prefix sep (c # cs) then [] # split sep (drop (length sep - 1) cs)
      else (case split sep cs of p # ps \<Rightarrow> (c # p) # ps | [] \<Rightarrow> [[c]]))"

text \<open>
  \<^verbatim>\<open>_parsePayload\<close> (lines 324 to 354), with the loop over the parts of a
  multipart node. Decoding an absent \<^verbatim>\<open>body.data\<close> and pushing to an absent
  \<^verbatim>\<open>attachments\<close> throw a \<^verbatim>\<open>TypeError\<close>.
\<close>

fun parsePayload :: "(string \<Rightarrow> string) \<Rightarrow> part \<Rightarrow> gmail_message \<Rightarrow> error + gmail_message"
  and parseParts :: "(string \<Rightarrow> string) \<Rightarrow> part list \<Rightarrow> gmail_message \<Rightarrow> error + gmail_message"
  where
  "parsePayload b64 (Part mt fname hs bd ps) parsedMessage =
     (if prefix ''multipart/'' mt then parseParts b64 ps parsedMessage
      else if mt = ''text/html'' then
        (case data bd of
           None \<Rightarrow> Inl (TypeError ''The first argument must be of type string'')
         | Some d \<Rightarrow> Inr (parsedMessage\<lparr>bodyHtml := Some (b64 d)\<rparr>))
      else if mt = ''text/plain'' then
        (case data bd of
           None \<Rightarrow> Inl (TypeError ''The first argument must be of type string'')
         | Some d \<Rightarrow> Inr (parsedMessage\<lparr>bodyText := Some (b64 d)\<rparr>))
      else if prefix ''image/'' mt \<or> prefix ''audio/'' mt \<or> prefix ''video/'' mt \<or>
              prefix ''application/'' mt \<or> prefix ''font/'' mt \<or> prefix ''model/'' mt then
        (case attachments parsedMessage of
           None \<Rightarrow> Inl (TypeError ''Cannot read properties of undefined (reading push)'')
         | Some atts \<Rightarrow>
             Inr (parsedMessage\<lparr>attachments := Some (atts @
                    [\<lparr>a_mimeType = mt, a_filename = fname, a_attachmentId = attachmentId bd,
                      a_size = size_b bd, a_data = None\<rparr>])\<rparr>))
      else Inr parsedMessage)"
| "parseParts b64 [] parsedMessage = Inr parsedMessage"
| "parseParts b64 (p # ps) parsedMessage =
     (case parsePayload b64 p parsedMessage of
        Inl err \<Rightarrow> Inl err
      | Inr parsedMessage' \<Rightarrow> parseParts b64 ps parsedMessage')"

definition findHeader :: "string \<Rightarrow> part \<Rightarrow> header option" where
  "findHeader nm p = find (\<lambda>h. h_name h = nm) (headers p)"

definition addressList :: "header option \<Rightarrow> address list option" where
  "addressList h = map_option (\<lambda>x. map parseEmailAddressHeader (split '', '' (h_value x))) h"

text \<open>\<^verbatim>\<open>_parseMessage\<close> (lines 366 to 444).\<close>

definition parseMessage ::
  "(string \<Rightarrow> string) \<Rightarrow> gmail_message \<Rightarrow> historyEntry \<Rightarrow> error + gmail_message" where
  "parseMessage b64 m historyEntry =
     (let parsedMessage = m\<lparr>historyType := Some
            (case filter (\<lambda>ht. hasOwnProperty historyEntry (makeHistoryTypePlural ht))
                    VALID_HISTORY_TYPES of
               ht # rest \<Rightarrow> ht
             | [] \<Rightarrow> [])\<rparr>
      in case payload m of
           None \<Rightarrow> Inr parsedMessage
         | Some p \<Rightarrow>
             parsePayload b64 p
               (parsedMessage\<lparr>
                  from_m := (case findHeader ''From'' p of
                               Some h \<Rightarrow> Some (parseEmailAddressHeader (h_value h))
                             | None \<Rightarrow> from_m parsedMessage),
                  to_m := (case findHeader ''To'' p of
                             Some h \<Rightarrow> addressList (Some h) | None \<Rightarrow> to_m parsedMessage),
                  cc_m := (case findHeader ''Cc'' p of
                             Some h \<Rightarrow> addressList (Some h) | None \<Rightarrow> cc_m parsedMessage),
                  bcc_m := (case findHeader ''Bcc'' p of
                              Some h \<Rightarrow> addressList (Some h) | None \<Rightarrow> bcc_m parsedMessage),
                  subject := (case findHeader ''Subject'' p of
                                Some h \<Rightarrow> Some (h_value h) | None \<Rightarrow> subject parsedMessage),
                  date := (case findHeader ''Date'' p of
                             Some h \<Rightarrow> Some (h_value h) | None \<Rightarrow> date parsedMessage),
                  attachments := Some []\<rparr>))"

section \<open>The retrieval entry points\<close>

text \<open>
  \<^verbatim>\<open>Promise.all\<close>: the values in order when every promise fulfils; otherwise the
  rejection that happens first in time, which the environment picks among the
  rejections. All the promises have been started when it is called.
\<close>

fun rejections :: "(error + 'a) list \<Rightarrow> error list" where
  "rejections [] = []"
| "rejections (Inl err # rs) = err # rejections rs"
| "rejections (Inr v # rs) = rejections rs"

fun fulfilments :: "(error + 'a) list \<Rightarrow> 'a list" where
  "fulfilments [] = []"
| "fulfilments (Inl err # rs) = fulfilments rs"
| "fulfilments (Inr v # rs) = v # fulfilments rs"

definition promise_all :: "env \<Rightarrow> (error + 'a) list \<Rightarrow> error + 'a list" where
  "promise_all E rs =
     (case rejections rs of
        [] \<Rightarrow> Inr (fulfilments rs)
      | err # errs \<Rightarrow>
          Inl ((err # errs) ! (first_rejection E (length (err # errs)) mod length (err # errs))))"

text \<open>
  The inner \<^verbatim>\<open>map\<close> of lines 491 to 495: one request per referenced message,
  each followed by \<^verbatim>\<open>_parseMessage\<close>.
\<close>

fun resolveMessages ::
  "env \<Rightarrow> historyEntry \<Rightarrow> message_ref list \<Rightarrow> world \<Rightarrow> (error + gmail_message) list \<times> world" where
  "resolveMessages E historyEntry [] W = ([], W)"
| "resolveMessages E historyEntry (ref # refs) W =
     (case getMessageFromId E ref W of
        (r, W1) \<Rightarrow>
          (case resolveMessages E historyEntry refs W1 of
             (rs, W2) \<Rightarrow>
               ((case r of Inl err \<Rightarrow> Inl err | Inr m \<Rightarrow> parseMessage (base64 E) m historyEntry) # rs,
                W2)))"

text \<open>
  The outer \<^verbatim>\<open>map\<close> of lines 489 to 497: an entry without \<^verbatim>\<open>messages\<close>
  throws a \<^verbatim>\<open>TypeError\<close> at once.
\<close>

fun resolveEntries ::
  "env \<Rightarrow> historyEntry list \<Rightarrow> world \<Rightarrow> (error + (error + gmail_message list) list) \<times> world" where
  "resolveEntries E [] W = (Inr [], W)"
| "resolveEntries E (historyEntry # rest) W =
     (case messages historyEntry of
        None \<Rightarrow> (Inl (TypeError ''Cannot read properties of undefined (reading map)''), W)
      | Some refs \<Rightarrow>
          (case resolveMessages E historyEntry refs W of
             (rs, W1) \<Rightarrow>
               (case resolveEntries E rest W1 of
                  (Inl err, W2) \<Rightarrow> (Inl err, W2)
                | (Inr ps, W2) \<Rightarrow> (Inr (promise_all E rs # ps), W2))))"

text \<open>
  \<^verbatim>\<open>messages.filter((message) => this._filterMessage(message))\<close>: the first
  call that throws ends the filter.
\<close>

fun filterMessages :: "api \<Rightarrow> gmail_message list \<Rightarrow> error + gmail_message list" where
  "filterMessages A [] = Inr []"
| "filterMessages A (m # ms) =
     (case filterMessage A m of
        Inl err \<Rightarrow> Inl err
      | Inr keep \<Rightarrow>
          (case filterMessages A ms of
             Inl err \<Rightarrow> Inl err
           | Inr ms' \<Rightarrow> Inr (if keep then m # ms' else ms')))"

definition retrieval_rules :: rules where
  "retrieval_rules =
     \<lparr>required = [''notification'', ''token''],
      optional = Some [''historyTypes'', ''addedLabelIds'', ''removedLabelIds'', ''withLabelIds'',
                       ''withoutLabelIds'']\<rparr>"

text \<open>
  \<^verbatim>\<open>getMessagesWithoutAttachment\<close> (lines 460 to 510). The function is
  \<^verbatim>\<open>async\<close>: every error is a rejection of the promise it returns. \<open>None\<close>
  is a call whose change-log fetch never returns.
\<close>

definition getMessagesWithoutAttachment ::
  "env \<Rightarrow> options option \<Rightarrow> world \<Rightarrow> ((error + gmail_message list) \<times> world) option" where
  "getMessagesWithoutAttachment E options W =
     (case getPropsFromOptions options retrieval_rules of
        Inl err \<Rightarrow> Some (Inl err, W)
      | Inr props \<Rightarrow>
         (case setApiPropertiesWithProps props (this_api W) of
            (Inl err, A) \<Rightarrow> Some (Inl err, W\<lparr>this_api := A\<rparr>)
          | (Inr u, A) \<Rightarrow>
             (case initialize E (notification props) (token props) (W\<lparr>this_api := A\<rparr>) of
                (Inl err, W1) \<Rightarrow> Some (Inl err, W1)
              | (Inr shouldProceed, W1) \<Rightarrow>
                  if shouldProceed then
                    Option.bind (getHistory E None W1)
                      (\<lambda>(r, W2).
                         case r of
                           Inl err \<Rightarrow> Some (Inl err, W2)
                         | Inr hist \<Rightarrow>
                            (case filterHistory (this_api W2) hist of
                               Inl err \<Rightarrow> Some (Inl err, W2)
                             | Inr filtered \<Rightarrow>
                                 if length filtered > 0 then
                                   (case resolveEntries E filtered W2 of
                                      (Inl err, W3) \<Rightarrow> Some (Inl err, W3)
                                    | (Inr ps, W3) \<Rightarrow>
                                       (case promise_all E ps of
                                          Inl err \<Rightarrow> Some (Inl err, W3)
                                        | Inr mss \<Rightarrow>
                                            Some (filterMessages (this_api W3) (concat mss), W3)))
                                 else Some (Inr [], W2)))
                  else Some (Inr [], W1))))"

text \<open>\<^verbatim>\<open>getAttachment\<close> (lines 519 to 529).\<close>

definition getAttachment ::
  "env \<Rightarrow> gmail_message \<Rightarrow> attachment \<Rightarrow> world \<Rightarrow> (error + string) \<times> world" where
  "getAttachment E m att W =
     (let W1 = W\<lparr>io := io W @
                 [AttachmentsGet (a_attachmentId att) (m_id m) (api_emailAddress (this_api W))]\<rparr>
      in case users_messages_attachments_get E (a_attachmentId att) (m_id m)
                (api_emailAddress (this_api W)) of
           Inl err \<Rightarrow> (Inl err, W1)
         | Inr d \<Rightarrow> (Inr (base64 E d), W1))"

text \<open>
  The attachments of one message, each with its data (lines 551 to 553), and the
  messages of a list (lines 549 to 555); a message without \<^verbatim>\<open>attachments\<close>
  throws a \<^verbatim>\<open>TypeError\<close> at once.
\<close>

fun attachData ::
  "env \<Rightarrow> gmail_message \<Rightarrow> attachment list \<Rightarrow> world \<Rightarrow> (error + attachment) list \<times> world" where
  "attachData E m [] W = ([], W)"
| "attachData E m (att # atts) W =
     (case getAttachment E m att W of
        (r, W1) \<Rightarrow>
          (case attachData E m atts W1 of
             (rs, W2) \<Rightarrow>
               ((case r of Inl err \<Rightarrow> Inl err | Inr d \<Rightarrow> Inr (att\<lparr>a_data := Some d\<rparr>)) # rs, W2)))"

fun attachAll ::
  "env \<Rightarrow> gmail_message list \<Rightarrow> world \<Rightarrow> (error + (error + gmail_message) list) \<times> world" where
  "attachAll E [] W = (Inr [], W)"
| "attachAll E (m # ms) W =
     (case attachments m of
        None \<Rightarrow> (Inl (TypeError ''Cannot read properties of undefined (reading map)''), W)
      | Some atts \<Rightarrow>
          (case attachData E m atts W of
             (rs, W1) \<Rightarrow>
               (case attachAll E ms W1 of
                  (Inl err, W2) \<Rightarrow> (Inl err, W2)
                | (Inr ps, W2) \<Rightarrow>
                    (Inr ((case promise_all E rs of
                             Inl err \<Rightarrow> Inl err
                           | Inr atts' \<Rightarrow> Inr (m\<lparr>attachments := Some atts'\<rparr>)) # ps), W2))))"

text \<open>\<^verbatim>\<open>getMessages\<close> (lines 545 to 559).\<close>

definition getMessages ::
  "env \<Rightarrow> options option \<Rightarrow> world \<Rightarrow> ((error + gmail_message list) \<times> world) option" where
  "getMessages E options W =
     Option.bind (getMessagesWithoutAttachment E options W)
       (\<lambda>(r, W1).
          case r of
            Inl err \<Rightarrow> Some (Inl err, W1)
          | Inr msgs \<Rightarrow>
              (case attachAll E msgs W1 of
                 (Inl err, W2) \<Rightarrow> Some (Inl err, W2)
               | (Inr ps, W2) \<Rightarrow> Some (promise_all E ps, W2)))"

text \<open>
  \<^verbatim>\<open>getNewMessage\<close> (lines 569 to 591); \<open>Inr None\<close> is the result
  \<^verbatim>\<open>null\<close>.
\<close>

definition getNewMessage ::
  "env \<Rightarrow> options option \<Rightarrow> world \<Rightarrow> ((error + gmail_message option) \<times> world) option" where
  "getNewMessage E options W =
     (case getPropsFromOptions options \<lparr>required = [''notification'', ''token''], optional = None\<rparr> of
        Inl err \<Rightarrow> Some (Inl err, W)
      | Inr props \<Rightarrow>
          Option.bind
            (getMessagesWithoutAttachment E
               (Some (props\<lparr>historyTypes := Some [''messageAdded''],
                             withLabelIds := Some [''INBOX''],
                             withoutLabelIds := Some [''SENT'']\<rparr>)) W)
            (\<lambda>(r, W1).
               case r of
                 Inl err \<Rightarrow> Some (Inl err, W1)
               | Inr [] \<Rightarrow> Some (Inr None, W1)
               | Inr (m # ms) \<Rightarrow>
                   (case attachments m of
                      None \<Rightarrow>
                        Some (Inl (TypeError ''Cannot read properties of undefined (reading map)''), W1)
                    | Some atts \<Rightarrow>
                        (case attachData E m atts W1 of
                           (rs, W2) \<Rightarrow>
                             Some (case promise_all E rs of
                                     Inl err \<Rightarrow> Inl err
                                   | Inr atts' \<Rightarrow> Inr (Some (m\<lparr>attachments := Some atts'\<rparr>)), W2)))))"

section \<open>Observations\<close>



text \<open>
  What happens to an instance and its file, one step after the other: a reconciliation
  cycle with its provider, notification and token, or a step of the file system on the
  oldest pending write.
\<close>

datatype step = Cycle env "notification option" "token option" | Truncate | Land

fun run :: "step list \<Rightarrow> world \<Rightarrow> world" where
  "run [] W = W"
| "run (Cycle E n tok # ss) W = run ss (snd (initialize E n tok W))"
| "run (Truncate # ss) W = run ss (fs_truncate W)"
| "run (Land # ss) W = run ss (fs_land W)"


definition isWatch :: "event \<Rightarrow> bool" where
  "isWatch e = (case e of Watch u t \<Rightarrow> True | _ \<Rightarrow> False)"

text \<open>
  The kind pass as the specification words it: for each requested kind, in the fixed
  order added, deleted, label-added, label-removed, the entries of that kind.
\<close>

definition spec_kind_pass :: "string list \<Rightarrow> historyEntry list \<Rightarrow> historyEntry list" where
  "spec_kind_pass hts hist =
     concat (map (\<lambda>ht. filter (\<lambda>e. hasOwnProperty e (makeHistoryTypePlural ht)) hist)
               (filter (\<lambda>ht. ht \<in> set hts) VALID_HISTORY_TYPES))"

section \<open>Concrete inputs\<close>

text \<open>
  A provider that renews every lease, has an empty change log and no messages; two
  change-log entries, one of a message added and one of a label added; a provider whose
  change log has two pages; a fresh instance without a file, and the same instance with
  a file that holds the record of one account.
\<close>

definition quiet_env :: env where
  "quiet_env =
     \<lparr>users_watch = (\<lambda>u t. Inr 1576543210),
      users_history_list = (\<lambda>r. Inr \<lparr>nextPageToken = None, history = None\<rparr>),
      users_messages_get = (\<lambda>i u. Inl (Error ''Not Found'')),
      users_messages_attachments_get = (\<lambda>a m u. Inl (Error ''Not Found'')),
      base64 = (\<lambda>s. s),
      first_rejection = (\<lambda>k. 0)\<rparr>"

definition entry_added :: historyEntry where
  "entry_added =
     \<lparr>h_id = ''1'', messages = Some [''m1''], messagesAdded = Some [''m1''],
      messagesDeleted = None, labelsAdded = None, labelsRemoved = None\<rparr>"

definition entry_label :: historyEntry where
  "entry_label =
     \<lparr>h_id = ''2'', messages = Some [''m2''], messagesAdded = None, messagesDeleted = None,
      labelsAdded = Some [\<lparr>lc_message = ''m2'', lc_labelIds = [''UNREAD'']\<rparr>],
      labelsRemoved = None\<rparr>"

definition two_pages :: env where
  "two_pages = quiet_env\<lparr>users_history_list :=
     (\<lambda>r. if pageToken r = None
          then Inr \<lparr>nextPageToken = Some ''p2'', history = Some [entry_added]\<rparr>
          else Inr \<lparr>nextPageToken = None, history = Some [entry_label]\<rparr>)\<rparr>"

definition world0 :: world where
  "world0 = \<lparr>this_api = Gmailpush ''topic'' None, disk = Missing, pending = [], io = []\<rparr>"

definition user1 :: prevHistory where
  "user1 = \<lparr>emailAddress = ''user1@gmail.com'', prevHistoryId = 100, watchExpiration = Some 1\<rparr>"

definition world1 :: world where
  "world1 = world0\<lparr>disk := Stored [user1]\<rparr>"

definition notify :: "string \<Rightarrow> int \<Rightarrow> notification option" where
  "notify a h = Some (Envelope \<lparr>n_emailAddress = a, n_historyId = h\<rparr>)"

definition plain_options :: "notification option \<Rightarrow> options" where
  "plain_options n =
     \<lparr>notification = n, token = Some ''t'', historyTypes = None, addedLabelIds = None,
      removedLabelIds = None, withLabelIds = None, withoutLabelIds = None, otherKeys = []\<rparr>"



definition label_options :: "notification option \<Rightarrow> options" where
  "label_options n =
     (plain_options n)\<lparr>historyTypes := Some [''messageAdded'', ''labelAdded''],
                        addedLabelIds := Some [''X'']\<rparr>"

definition label_api :: api where
  "label_api =
     snd (setApiPropertiesWithProps (label_options (notify ''user1@gmail.com'' 100))
            (Gmailpush ''topic'' None))"



text \<open>Options that give added label ids and no history types.\<close>

definition added_only_options :: "notification option \<Rightarrow> options" where
  "added_only_options n = (plain_options n)\<lparr>addedLabelIds := Some [''X'']\<rparr>"

text \<open>The stub that stands for a message the provider did not find.\<close>

definition stub :: "string \<Rightarrow> gmail_message" where
  "stub messageId =
     \<lparr>m_id = messageId, labelIds = None, payload = None, attachments = Some [],
      notFound = True, historyType = None, from_m = None, to_m = None, cc_m = None,
      bcc_m = None, subject = None, date = None, bodyText = None, bodyHtml = None\<rparr>"

section \<open>Evaluation\<close>

lemmas eval_initialize =
  initialize_def loadPrevHistories_def Let_def getEmailAddress_def getHistoryId_def
  parseNotificationPayload_def readFile_def notify_def world1_def world0_def user1_def
  Gmailpush_def quiet_env_def DEFAULT_HISTORY_ID_FILE_PATH_def

lemmas eval_options =
  getPropsFromOptions_def retrieval_rules_def plain_options_def keys_def
  setApiPropertiesWithProps_def VALID_HISTORY_TYPES_def

lemma promise_all_Nil [simp]: "promise_all E [] = Inr []"
  by (simp add: promise_all_def)

section \<open>The change-log fetcher: pages\<close>

text \<open>
  A page with a continuation token contributes nothing to the result: the call returns
  what the fetch of the next page returns.
\<close>

lemma getHistory_next_page:
  assumes "users_history_list E \<lparr>userId = api_emailAddress (this_api W),
              startHistoryId = api_startHistoryId (this_api W),
              pageToken = (if truthy tk then tk else None)\<rparr> = Inr page"
    and "truthy (nextPageToken page)"
  shows "map_option fst (getHistory E tk W) =
         map_option fst (getHistory E (nextPageToken page)
           (W\<lparr>io := io W @ [HistoryList \<lparr>userId = api_emailAddress (this_api W),
              startHistoryId = api_startHistoryId (this_api W),
              pageToken = (if truthy tk then tk else None)\<rparr>]\<rparr>))"
  apply (subst getHistory.simps)
  using assms
  apply (simp add: Let_def split: option.splits sum.splits prod.splits bind_splits)
  done

text \<open>A page without a continuation token ends the fetch; no entries is the empty list.\<close>

lemma getHistory_last_page:
  assumes "users_history_list E \<lparr>userId = api_emailAddress (this_api W),
              startHistoryId = api_startHistoryId (this_api W),
              pageToken = (if truthy tk then tk else None)\<rparr> = Inr page"
    and "\<not> truthy (nextPageToken page)"
  shows "map_option fst (getHistory E tk W) =
         Some (Inr (case history page of Some h \<Rightarrow> h | None \<Rightarrow> []))"
  apply (subst getHistory.simps)
  using assms
  apply (simp add: Let_def)
  done

text \<open>
  C1. The claim: the change-log fetch returns the entries of every page, concatenated
  in order. On a change log of two pages, the first holding \<open>entry_added\<close> with a
  continuation token and the second holding \<open>entry_label\<close>, the fetch returns the
  entries of the second page only: line 164 concatenates the rest to the empty array and
  leaves the entries of the current page out.
\<close>

theorem C1_getHistory_two_pages:
  "map_option fst (getHistory two_pages None world0) = Some (Inr [entry_label])"
  by (simp add: getHistory.simps two_pages_def quiet_env_def truthy_def)

section \<open>The reconciliation controller: the first notification of an account\<close>

text \<open>
  C2. The claim: for an account never seen before, whether the file is absent or holds
  no record of the account, the first cycle returns "stop" and creates one record. With
  a file that holds the record of another account only, \<^verbatim>\<open>find\<close> returns
  \<^verbatim>\<open>undefined\<close>, the assignment of line 114 throws, the file keeps its content
  and the entry point rejects.
\<close>

theorem C2_initialize_unknown_account_in_file:
  "fst (initialize quiet_env (notify ''user2@gmail.com'' 200) (Some ''t'') world1) =
     Inl (TypeError ''Cannot set properties of undefined (setting watchExpiration)'') \<and>
   disk (snd (initialize quiet_env (notify ''user2@gmail.com'' 200) (Some ''t'') world1)) =
     Stored [user1] \<and>
   map_option fst (getMessagesWithoutAttachment quiet_env
       (Some (plain_options (notify ''user2@gmail.com'' 200))) world1) =
     Some (Inl (TypeError ''Cannot set properties of undefined (setting watchExpiration)''))"
  by (simp add: getMessagesWithoutAttachment_def eval_options eval_initialize)

text \<open>
  With the file missing and no record of the account on the instance, the cycle seeds
  one record from the notification, renews the lease, starts the write of the file with
  that record and returns \<^verbatim>\<open>false\<close>.
\<close>

lemma update_first_append_new:
  "find P xs = None \<Longrightarrow> P x \<Longrightarrow> update_first P f (xs @ [x]) = xs @ [f x]"
  by (induction xs) (auto split: if_splits)

lemma find_append_new: "find P xs = None \<Longrightarrow> P x \<Longrightarrow> find P (xs @ [x]) = Some x"
  by (induction xs) (auto split: if_splits)

lemma initialize_missing_file:
  assumes "disk W = Missing"
    and "find (\<lambda>h. emailAddress h = n_emailAddress p) (prevHistories (this_api W)) = None"
    and "users_watch E (Some (n_emailAddress p)) (pubsubTopic (this_api W)) = Inr expiration"
  shows "fst (initialize E (Some (Envelope p)) tok W) = Inr False \<and>
         pending (snd (initialize E (Some (Envelope p)) tok W)) =
           pending W @ [prevHistories (this_api W) @
             [\<lparr>emailAddress = n_emailAddress p, prevHistoryId = n_historyId p,
               watchExpiration = Some expiration\<rparr>]]"
  using assms
  by (simp add: initialize_def loadPrevHistories_def Let_def getEmailAddress_def getHistoryId_def
        parseNotificationPayload_def readFile_def find_append_new update_first_append_new)

section \<open>The reconciliation controller: the lease\<close>

lemma find_update_first_same:
  "(\<And>x. P x \<Longrightarrow> P (f x)) \<Longrightarrow> find P (update_first P f xs) = map_option f (find P xs)"
  by (induction xs) auto


lemma loadPrevHistories_api:
  "loadPrevHistories n addr (A\<lparr>credentials := tok, api_emailAddress := x\<rparr>) f =
   loadPrevHistories n addr A f"
  by (simp add: loadPrevHistories_def split: sum.splits)

lemma getHistoryId_decodes: "getEmailAddress n = Inr addr \<Longrightarrow> \<exists>hid. getHistoryId n = Inr hid"
  by (auto simp: getEmailAddress_def getHistoryId_def split: option.splits sum.splits)

text \<open>
  A cycle whose notification decodes and whose store loads, with a record of the account
  and a renewal that succeeds: what it returns and the state it leaves, in full.
\<close>

lemma initialize_branches:
  assumes "getEmailAddress n = Inr addr"
    and "loadPrevHistories n addr (this_api W) (disk W) = Inr hs"
    and "users_watch E (Some addr) (pubsubTopic (this_api W)) = Inr expiration"
    and "find (\<lambda>h. emailAddress h = addr) hs = Some ph"
    and "getHistoryId n = Inr hid"
  shows "initialize E n tok W =
    (Inr (prevHistoryId ph < hid),
     W\<lparr>this_api := (this_api W)\<lparr>credentials := tok, api_emailAddress := Some addr,
           prevHistories :=
             (if prevHistoryId ph < hid
              then update_first (\<lambda>h. emailAddress h = addr) (\<lambda>h. h\<lparr>prevHistoryId := hid\<rparr>)
                     (update_first (\<lambda>h. emailAddress h = addr)
                        (\<lambda>h. h\<lparr>watchExpiration := Some expiration\<rparr>) hs)
              else update_first (\<lambda>h. emailAddress h = addr)
                     (\<lambda>h. h\<lparr>watchExpiration := Some expiration\<rparr>) hs),
           api_startHistoryId :=
             (if prevHistoryId ph < hid then Some (prevHistoryId ph)
              else api_startHistoryId (this_api W))\<rparr>,
       pending := pending W @
         [if prevHistoryId ph < hid
          then update_first (\<lambda>h. emailAddress h = addr) (\<lambda>h. h\<lparr>prevHistoryId := hid\<rparr>)
                 (update_first (\<lambda>h. emailAddress h = addr)
                    (\<lambda>h. h\<lparr>watchExpiration := Some expiration\<rparr>) hs)
          else update_first (\<lambda>h. emailAddress h = addr)
                 (\<lambda>h. h\<lparr>watchExpiration := Some expiration\<rparr>) hs],
       io := io W @
         [ReadFile (prevHistoryIdFilePath (this_api W)),
          Watch (Some addr) (pubsubTopic (this_api W)),
          WriteFile (prevHistoryIdFilePath (this_api W))
            (if prevHistoryId ph < hid
             then update_first (\<lambda>h. emailAddress h = addr) (\<lambda>h. h\<lparr>prevHistoryId := hid\<rparr>)
                    (update_first (\<lambda>h. emailAddress h = addr)
                       (\<lambda>h. h\<lparr>watchExpiration := Some expiration\<rparr>) hs)
             else update_first (\<lambda>h. emailAddress h = addr)
                    (\<lambda>h. h\<lparr>watchExpiration := Some expiration\<rparr>) hs)]\<rparr>)"
  using assms
  by (simp add: initialize_def Let_def loadPrevHistories_api)


text \<open>The same cycle when the renewal fails, and when the store has no record of the account.\<close>

lemma initialize_watch_fails:
  assumes "getEmailAddress n = Inr addr"
    and "loadPrevHistories n addr (this_api W) (disk W) = Inr hs"
    and "users_watch E (Some addr) (pubsubTopic (this_api W)) = Inl err"
  shows "initialize E n tok W =
    (Inl err,
     W\<lparr>this_api := (this_api W)\<lparr>credentials := tok, api_emailAddress := Some addr,
           prevHistories := hs\<rparr>,
       io := io W @ [ReadFile (prevHistoryIdFilePath (this_api W)),
                     Watch (Some addr) (pubsubTopic (this_api W))]\<rparr>)"
  using assms
  by (simp add: initialize_def Let_def loadPrevHistories_api)

lemma initialize_no_record:
  assumes "getEmailAddress n = Inr addr"
    and "loadPrevHistories n addr (this_api W) (disk W) = Inr hs"
    and "users_watch E (Some addr) (pubsubTopic (this_api W)) = Inr expiration"
    and "find (\<lambda>h. emailAddress h = addr) hs = None"
  shows "initialize E n tok W =
    (Inl (TypeError ''Cannot set properties of undefined (setting watchExpiration)''),
     W\<lparr>this_api := (this_api W)\<lparr>credentials := tok, api_emailAddress := Some addr,
           prevHistories := hs\<rparr>,
       io := io W @ [ReadFile (prevHistoryIdFilePath (this_api W)),
                     Watch (Some addr) (pubsubTopic (this_api W))]\<rparr>)"
  using assms
  by (simp add: initialize_def Let_def loadPrevHistories_api)




text \<open>
  C6. In every cycle whose notification decodes and whose store loads, the lease is
  renewed exactly once. When the renewal succeeds and the store has a record of the
  account, the cycle returns whether the counter of the notification exceeds the
  stored one, and in both cases the record holds the result of the renewal as
  \<open>watchExpiration\<close>, in the array of the instance and in the data handed to the write
  of the file, which is started after the renewal. When the renewal fails the cycle
  rejects with its error and starts no write; when the store has no record of the
  account the renewal has been made and the cycle rejects.
\<close>

theorem C6_lease_renewed_once_in_both_branches:
  assumes "getEmailAddress n = Inr addr"
    and "loadPrevHistories n addr (this_api W) (disk W) = Inr hs"
  shows "length (filter isWatch (io (snd (initialize E n tok W)))) =
           length (filter isWatch (io W)) + 1 \<and>
         (\<forall>expiration ph hid.
            users_watch E (Some addr) (pubsubTopic (this_api W)) = Inr expiration \<and>
            find (\<lambda>h. emailAddress h = addr) hs = Some ph \<and> getHistoryId n = Inr hid \<longrightarrow>
            fst (initialize E n tok W) = Inr (prevHistoryId ph < hid) \<and>
            find (\<lambda>h. emailAddress h = addr)
                (prevHistories (this_api (snd (initialize E n tok W)))) =
              Some (ph\<lparr>watchExpiration := Some expiration,
                       prevHistoryId := (if prevHistoryId ph < hid then hid
                                         else prevHistoryId ph)\<rparr>) \<and>
            pending (snd (initialize E n tok W)) =
              pending W @ [prevHistories (this_api (snd (initialize E n tok W)))] \<and>
            io (snd (initialize E n tok W)) =
              io W @ [ReadFile (prevHistoryIdFilePath (this_api W)),
                      Watch (Some addr) (pubsubTopic (this_api W)),
                      WriteFile (prevHistoryIdFilePath (this_api W))
                        (prevHistories (this_api (snd (initialize E n tok W))))]) \<and>
         (\<forall>err. users_watch E (Some addr) (pubsubTopic (this_api W)) = Inl err \<longrightarrow>
            fst (initialize E n tok W) = Inl err \<and>
            pending (snd (initialize E n tok W)) = pending W \<and>
            io (snd (initialize E n tok W)) =
              io W @ [ReadFile (prevHistoryIdFilePath (this_api W)),
                      Watch (Some addr) (pubsubTopic (this_api W))]) \<and>
         (\<forall>expiration.
            users_watch E (Some addr) (pubsubTopic (this_api W)) = Inr expiration \<and>
            find (\<lambda>h. emailAddress h = addr) hs = None \<longrightarrow>
            fst (initialize E n tok W) =
              Inl (TypeError ''Cannot set properties of undefined (setting watchExpiration)'') \<and>
            pending (snd (initialize E n tok W)) = pending W \<and>
            io (snd (initialize E n tok W)) =
              io W @ [ReadFile (prevHistoryIdFilePath (this_api W)),
                      Watch (Some addr) (pubsubTopic (this_api W))])"
proof (intro conjI allI impI)
  show "length (filter isWatch (io (snd (initialize E n tok W)))) =
           length (filter isWatch (io W)) + 1"
  proof (cases "users_watch E (Some addr) (pubsubTopic (this_api W))")
    case (Inl err)
    from initialize_watch_fails[OF assms Inl] show ?thesis by (simp add: isWatch_def)
  next
    case (Inr expiration)
    from getHistoryId_decodes[OF assms(1)] obtain hid where hid: "getHistoryId n = Inr hid" ..
    show ?thesis
    proof (cases "find (\<lambda>h. emailAddress h = addr) hs")
      case None
      from initialize_no_record[OF assms Inr None] show ?thesis by (simp add: isWatch_def)
    next
      case (Some ph)
      from initialize_branches[OF assms Inr Some hid] show ?thesis by (simp add: isWatch_def)
    qed
  qed
next
  fix expiration ph hid
  assume a: "users_watch E (Some addr) (pubsubTopic (this_api W)) = Inr expiration \<and>
            find (\<lambda>h. emailAddress h = addr) hs = Some ph \<and> getHistoryId n = Inr hid"
  then have b: "initialize E n tok W = (Inr (prevHistoryId ph < hid),
     W\<lparr>this_api := (this_api W)\<lparr>credentials := tok, api_emailAddress := Some addr,
           prevHistories :=
             (if prevHistoryId ph < hid
              then update_first (\<lambda>h. emailAddress h = addr) (\<lambda>h. h\<lparr>prevHistoryId := hid\<rparr>)
                     (update_first (\<lambda>h. emailAddress h = addr)
                        (\<lambda>h. h\<lparr>watchExpiration := Some expiration\<rparr>) hs)
              else update_first (\<lambda>h. emailAddress h = addr)
                     (\<lambda>h. h\<lparr>watchExpiration := Some expiration\<rparr>) hs),
           api_startHistoryId :=
             (if prevHistoryId ph < hid then Some (prevHistoryId ph)
              else api_startHistoryId (this_api W))\<rparr>,
       pending := pending W @
         [if prevHistoryId ph < hid
          then update_first (\<lambda>h. emailAddress h = addr) (\<lambda>h. h\<lparr>prevHistoryId := hid\<rparr>)
                 (update_first (\<lambda>h. emailAddress h = addr)
                    (\<lambda>h. h\<lparr>watchExpiration := Some expiration\<rparr>) hs)
          else update_first (\<lambda>h. emailAddress h = addr)
                 (\<lambda>h. h\<lparr>watchExpiration := Some expiration\<rparr>) hs],
       io := io W @
         [ReadFile (prevHistoryIdFilePath (this_api W)),
          Watch (Some addr) (pubsubTopic (this_api W)),
          WriteFile (prevHistoryIdFilePath (this_api W))
            (if prevHistoryId ph < hid
             then update_first (\<lambda>h. emailAddress h = addr) (\<lambda>h. h\<lparr>prevHistoryId := hid\<rparr>)
                    (update_first (\<lambda>h. emailAddress h = addr)
                       (\<lambda>h. h\<lparr>watchExpiration := Some expiration\<rparr>) hs)
             else update_first (\<lambda>h. emailAddress h = addr)
                    (\<lambda>h. h\<lparr>watchExpiration := Some expiration\<rparr>) hs)]\<rparr>)"
    using initialize_branches[OF assms, of E expiration ph hid tok] by blast
  show "fst (initialize E n tok W) = Inr (prevHistoryId ph < hid)"
    by (simp add: b)
  show "find (\<lambda>h. emailAddress h = addr)
                (prevHistories (this_api (snd (initialize E n tok W)))) =
              Some (ph\<lparr>watchExpiration := Some expiration,
                       prevHistoryId := (if prevHistoryId ph < hid then hid
                                         else prevHistoryId ph)\<rparr>)"
    using a by (simp add: b find_update_first_same)
  show "pending (snd (initialize E n tok W)) =
              pending W @ [prevHistories (this_api (snd (initialize E n tok W)))]"
    by (simp add: b)
  show "io (snd (initialize E n tok W)) =
              io W @ [ReadFile (prevHistoryIdFilePath (this_api W)),
                      Watch (Some addr) (pubsubTopic (this_api W)),
                      WriteFile (prevHistoryIdFilePath (this_api W))
                        (prevHistories (this_api (snd (initialize E n tok W))))]"
    by (simp add: b)
next
  fix err
  assume a: "users_watch E (Some addr) (pubsubTopic (this_api W)) = Inl err"
  note b = initialize_watch_fails[OF assms a, of tok]
  show "fst (initialize E n tok W) = Inl err" by (simp add: b)
  show "pending (snd (initialize E n tok W)) = pending W" by (simp add: b)
  show "io (snd (initialize E n tok W)) =
              io W @ [ReadFile (prevHistoryIdFilePath (this_api W)),
                      Watch (Some addr) (pubsubTopic (this_api W))]"
    by (simp add: b)
next
  fix expiration
  assume a: "users_watch E (Some addr) (pubsubTopic (this_api W)) = Inr expiration \<and>
            find (\<lambda>h. emailAddress h = addr) hs = None"
  then have b: "initialize E n tok W =
    (Inl (TypeError ''Cannot set properties of undefined (setting watchExpiration)''),
     W\<lparr>this_api := (this_api W)\<lparr>credentials := tok, api_emailAddress := Some addr,
           prevHistories := hs\<rparr>,
       io := io W @ [ReadFile (prevHistoryIdFilePath (this_api W)),
                     Watch (Some addr) (pubsubTopic (this_api W))]\<rparr>)"
    using initialize_no_record[OF assms, of E expiration tok] by blast
  show "fst (initialize E n tok W) =
              Inl (TypeError ''Cannot set properties of undefined (setting watchExpiration)'')"
    by (simp add: b)
  show "pending (snd (initialize E n tok W)) = pending W" by (simp add: b)
  show "io (snd (initialize E n tok W)) =
              io W @ [ReadFile (prevHistoryIdFilePath (this_api W)),
                      Watch (Some addr) (pubsubTopic (this_api W))]"
    by (simp add: b)
qed

text \<open>
  The file holds the counter 100 and the expiration 1. A notification with the counter
  100 is stale and one with the counter 150 is fresh; in both cycles there is one
  renewal, and the record on the instance and in the data of the started write holds
  the new expiration.
\<close>

theorem C6_lease_renewed_once_in_both_branches_witness:
  "getEmailAddress (notify ''user1@gmail.com'' 100) = Inr ''user1@gmail.com'' \<and>
   loadPrevHistories (notify ''user1@gmail.com'' 100) ''user1@gmail.com'' (this_api world1)
     (disk world1) = Inr [user1] \<and>
   fst (initialize quiet_env (notify ''user1@gmail.com'' 100) (Some ''t'') world1) = Inr False \<and>
   length (filter isWatch
     (io (snd (initialize quiet_env (notify ''user1@gmail.com'' 100) (Some ''t'') world1)))) = 1 \<and>
   pending (snd (initialize quiet_env (notify ''user1@gmail.com'' 100) (Some ''t'') world1)) =
     [[user1\<lparr>watchExpiration := Some 1576543210\<rparr>]] \<and>
   fst (initialize quiet_env (notify ''user1@gmail.com'' 150) (Some ''t'') world1) = Inr True \<and>
   length (filter isWatch
     (io (snd (initialize quiet_env (notify ''user1@gmail.com'' 150) (Some ''t'') world1)))) = 1 \<and>
   pending (snd (initialize quiet_env (notify ''user1@gmail.com'' 150) (Some ''t'') world1)) =
     [[user1\<lparr>watchExpiration := Some 1576543210, prevHistoryId := 150\<rparr>]]"
proof -
  have e: "getEmailAddress (notify ''user1@gmail.com'' 100) = Inr ''user1@gmail.com''"
    "getEmailAddress (notify ''user1@gmail.com'' 150) = Inr ''user1@gmail.com''"
    by (simp_all add: getEmailAddress_def notify_def parseNotificationPayload_def)
  have l: "loadPrevHistories (notify ''user1@gmail.com'' 100) ''user1@gmail.com''
             (this_api world1) (disk world1) = Inr [user1]"
    "loadPrevHistories (notify ''user1@gmail.com'' 150) ''user1@gmail.com''
             (this_api world1) (disk world1) = Inr [user1]"
    by (simp_all add: loadPrevHistories_def readFile_def world1_def world0_def)
  have w: "users_watch quiet_env (Some ''user1@gmail.com'') (pubsubTopic (this_api world1)) =
             Inr 1576543210"
    by (simp add: quiet_env_def)
  have f: "find (\<lambda>h. emailAddress h = ''user1@gmail.com'') [user1] = Some user1"
    by (simp add: user1_def)
  have h: "getHistoryId (notify ''user1@gmail.com'' 100) = Inr 100"
    "getHistoryId (notify ''user1@gmail.com'' 150) = Inr 150"
    by (simp_all add: getHistoryId_def notify_def parseNotificationPayload_def)
  have i: "io world1 = []" "pending world1 = []" by (simp_all add: world1_def world0_def)
  have p: "prevHistoryId user1 = 100" by (simp add: user1_def)
  note stale = C6_lease_renewed_once_in_both_branches[OF e(1) l(1), of quiet_env "Some ''t''"]
  note fresh = C6_lease_renewed_once_in_both_branches[OF e(2) l(2), of quiet_env "Some ''t''"]
  from stale[THEN conjunct2, THEN conjunct1, rule_format, of 1576543210 user1 100] w f h(1)
  have s1: "fst (initialize quiet_env (notify ''user1@gmail.com'' 100) (Some ''t'') world1) =
        Inr False"
    and s2: "find (\<lambda>h. emailAddress h = ''user1@gmail.com'')
        (prevHistories (this_api
           (snd (initialize quiet_env (notify ''user1@gmail.com'' 100) (Some ''t'') world1)))) =
        Some (user1\<lparr>watchExpiration := Some 1576543210\<rparr>)"
    by (simp_all add: p user1_def)
  from fresh[THEN conjunct2, THEN conjunct1, rule_format, of 1576543210 user1 150] w f h(2)
  have f1: "fst (initialize quiet_env (notify ''user1@gmail.com'' 150) (Some ''t'') world1) =
        Inr True"
    by (simp add: p)
  from stale[THEN conjunct1] fresh[THEN conjunct1] i
  have c: "length (filter isWatch
     (io (snd (initialize quiet_env (notify ''user1@gmail.com'' 100) (Some ''t'') world1)))) = 1"
    "length (filter isWatch
     (io (snd (initialize quiet_env (notify ''user1@gmail.com'' 150) (Some ''t'') world1)))) = 1"
    by simp_all
  have q: "pending (snd (initialize quiet_env (notify ''user1@gmail.com'' 100) (Some ''t'') world1)) =
     [[user1\<lparr>watchExpiration := Some 1576543210\<rparr>]]"
    "pending (snd (initialize quiet_env (notify ''user1@gmail.com'' 150) (Some ''t'') world1)) =
     [[user1\<lparr>watchExpiration := Some 1576543210, prevHistoryId := 150\<rparr>]]"
    by (simp_all add: eval_initialize)
  from e(1) l(1) s1 f1 c q show ?thesis by simp
qed


section \<open>The reconciliation controller: the stored counter\<close>






text \<open>
  A cycle that reads the file while a write has emptied it rejects with the error of
  \<^verbatim>\<open>JSON.parse\<close> and starts no write: the third of three cycles when the write of
  the second, stale one has only opened the file.
\<close>

lemma cycle_on_truncated_file:
  "fst (initialize quiet_env (notify ''user1@gmail.com'' 150) (Some ''t'')
         (run [Cycle quiet_env (notify ''user1@gmail.com'' 150) (Some ''t''), Land,
               Cycle quiet_env (notify ''user1@gmail.com'' 120) (Some ''t''), Truncate] world1)) =
     Inl (SyntaxError ''Unexpected end of JSON input'')"
  by (simp add: fs_land_def fs_truncate_def eval_initialize)




section \<open>The change filter\<close>

lemma foldl_append_concat:
  "foldl (\<lambda>acc x. acc @ f x) a xs = a @ concat (map f xs)"
  by (induction xs arbitrary: a) simp_all

lemma filteredWithHistoryTypes_concat:
  "filteredWithHistoryTypes hts hist =
     concat (map (\<lambda>ht. filter (\<lambda>e. hasOwnProperty e (makeHistoryTypePlural ht)) hist) hts)"
  by (simp add: filteredWithHistoryTypes_def foldl_append_concat)

lemma makeHistoryTypePlural_valid:
  "makeHistoryTypePlural ''messageAdded'' = ''messagesAdded''"
  "makeHistoryTypePlural ''messageDeleted'' = ''messagesDeleted''"
  "makeHistoryTypePlural ''labelAdded'' = ''labelsAdded''"
  "makeHistoryTypePlural ''labelRemoved'' = ''labelsRemoved''"
  by (simp_all add: makeHistoryTypePlural_def)

text \<open>
  C7, the claim as stated: the kind pass groups the entries in the fixed order added,
  deleted, label-added, label-removed. The caller's \<^verbatim>\<open>historyTypes\<close>
  \<^verbatim>\<open>['labelAdded', 'messageAdded']\<close> pass the validation and are stored as given;
  on a log with an added message followed by an added label the kind pass puts the
  label entry first, where the fixed order puts the message entry first.
\<close>

theorem C7_kind_pass_fixed_order_counterexample:
  "fst (setApiPropertiesWithProps
          ((plain_options (notify ''user1@gmail.com'' 100))
             \<lparr>historyTypes := Some [''labelAdded'', ''messageAdded'']\<rparr>)
          (Gmailpush ''topic'' None)) = Inr () \<and>
   api_historyTypes (snd (setApiPropertiesWithProps
          ((plain_options (notify ''user1@gmail.com'' 100))
             \<lparr>historyTypes := Some [''labelAdded'', ''messageAdded'']\<rparr>)
          (Gmailpush ''topic'' None))) = Some [''labelAdded'', ''messageAdded''] \<and>
   filteredWithHistoryTypes [''labelAdded'', ''messageAdded''] [entry_added, entry_label] =
     [entry_label, entry_added] \<and>
   spec_kind_pass [''labelAdded'', ''messageAdded''] [entry_added, entry_label] =
     [entry_added, entry_label] \<and>
   filteredWithHistoryTypes [''labelAdded'', ''messageAdded''] [entry_added, entry_label] \<noteq>
     spec_kind_pass [''labelAdded'', ''messageAdded''] [entry_added, entry_label]"
  by (simp add: eval_options Gmailpush_def filteredWithHistoryTypes_def spec_kind_pass_def
        makeHistoryTypePlural_valid hasOwnProperty_def entry_added_def entry_label_def)

text \<open>
  C7, amended. The kind pass returns, for each requested kind in the order the kinds
  were requested, the entries that have the property of that kind, in the order of the
  log within each group; for the default, the four kinds, that order is added, deleted,
  label-added, label-removed; and an entry of the log is in the result exactly when it
  has the property of a requested kind.
\<close>

theorem C7_kind_pass_in_requested_order:
  "filteredWithHistoryTypes hts hist =
     concat (map (\<lambda>ht. filter (\<lambda>e. hasOwnProperty e (makeHistoryTypePlural ht)) hist) hts) \<and>
   filteredWithHistoryTypes VALID_HISTORY_TYPES hist =
     filter (\<lambda>e. messagesAdded e \<noteq> None) hist @ filter (\<lambda>e. messagesDeleted e \<noteq> None) hist @
     filter (\<lambda>e. labelsAdded e \<noteq> None) hist @ filter (\<lambda>e. labelsRemoved e \<noteq> None) hist \<and>
   set (filteredWithHistoryTypes hts hist) =
     {e. e \<in> set hist \<and> (\<exists>ht. ht \<in> set hts \<and> hasOwnProperty e (makeHistoryTypePlural ht))}"
proof (intro conjI)
  show "filteredWithHistoryTypes hts hist =
     concat (map (\<lambda>ht. filter (\<lambda>e. hasOwnProperty e (makeHistoryTypePlural ht)) hist) hts)"
    by (rule filteredWithHistoryTypes_concat)
  show "filteredWithHistoryTypes VALID_HISTORY_TYPES hist =
     filter (\<lambda>e. messagesAdded e \<noteq> None) hist @ filter (\<lambda>e. messagesDeleted e \<noteq> None) hist @
     filter (\<lambda>e. labelsAdded e \<noteq> None) hist @ filter (\<lambda>e. labelsRemoved e \<noteq> None) hist"
    by (simp add: filteredWithHistoryTypes_concat VALID_HISTORY_TYPES_def
          makeHistoryTypePlural_valid hasOwnProperty_def)
  show "set (filteredWithHistoryTypes hts hist) =
     {e. e \<in> set hist \<and> (\<exists>ht. ht \<in> set hts \<and> hasOwnProperty e (makeHistoryTypePlural ht))}"
    by (auto simp: filteredWithHistoryTypes_concat)
qed

lemma passesLabelIds_iff:
  "passesLabelIds A e =
     ((\<forall>ids changes. api_addedLabelIds A = Some ids \<and> labelsAdded e = Some changes \<longrightarrow>
         (\<exists>ch \<in> set changes. \<exists>i \<in> set ids. i \<in> set (lc_labelIds ch))) \<and>
      (\<forall>ids changes. api_removedLabelIds A = Some ids \<and> labelsRemoved e = Some changes \<longrightarrow>
         (\<exists>ch \<in> set changes. \<exists>i \<in> set ids. i \<in> set (lc_labelIds ch))))"
  by (auto simp: passesLabelIds_def filter_empty_conv includesAny_def list_ex_iff
        split: option.splits)

text \<open>
  C4, the claim as stated: with an added-label-id filter, every entry without a
  \<^verbatim>\<open>labelsAdded\<close> delta is dropped. With the options
  \<^verbatim>\<open>historyTypes: ['messageAdded', 'labelAdded'], addedLabelIds: ['X']\<close> the entry
  \<open>entry_added\<close>, which has no \<^verbatim>\<open>labelsAdded\<close>, is kept.
\<close>

theorem C4_entry_without_delta_kept_counterexample:
  "api_addedLabelIds label_api = Some [''X''] \<and> labelsAdded entry_added = None \<and>
   filterHistory label_api [entry_added] = Inr [entry_added]"
  by (simp add: label_api_def label_options_def eval_options Gmailpush_def filterHistory_def
        filteredWithHistoryTypes_def makeHistoryTypePlural_valid hasOwnProperty_def
        passesLabelIds_def entry_added_def)

text \<open>
  C4, amended. Of the entries that survive the kind pass, the label-delta pass drops
  exactly these: when the added label ids are set, an entry that has a
  \<^verbatim>\<open>labelsAdded\<close> delta of which no element includes one of them; when the removed
  label ids are set, an entry that has a \<^verbatim>\<open>labelsRemoved\<close> delta of which no
  element includes one of them. An entry without the delta is not dropped by that filter.
\<close>

theorem C4_label_delta_pass:
  assumes "api_historyTypes A = Some hts"
  shows "filterHistory A hist =
     Inr (filter
       (\<lambda>e. (\<forall>ids changes. api_addedLabelIds A = Some ids \<and> labelsAdded e = Some changes \<longrightarrow>
                (\<exists>ch \<in> set changes. \<exists>i \<in> set ids. i \<in> set (lc_labelIds ch))) \<and>
            (\<forall>ids changes. api_removedLabelIds A = Some ids \<and> labelsRemoved e = Some changes \<longrightarrow>
                (\<exists>ch \<in> set changes. \<exists>i \<in> set ids. i \<in> set (lc_labelIds ch))))
       (filteredWithHistoryTypes hts hist))"
proof -
  have "filter (passesLabelIds A) (filteredWithHistoryTypes hts hist) =
        filter
       (\<lambda>e. (\<forall>ids changes. api_addedLabelIds A = Some ids \<and> labelsAdded e = Some changes \<longrightarrow>
                (\<exists>ch \<in> set changes. \<exists>i \<in> set ids. i \<in> set (lc_labelIds ch))) \<and>
            (\<forall>ids changes. api_removedLabelIds A = Some ids \<and> labelsRemoved e = Some changes \<longrightarrow>
                (\<exists>ch \<in> set changes. \<exists>i \<in> set ids. i \<in> set (lc_labelIds ch))))
       (filteredWithHistoryTypes hts hist)"
    by (rule filter_cong[OF refl]) (rule passesLabelIds_iff)
  with assms show ?thesis by (simp add: filterHistory_def)
qed

text \<open>
  With the added label \<^verbatim>\<open>X\<close> requested, the entry of an added message is kept and
  the entry whose added labels are \<^verbatim>\<open>UNREAD\<close> is dropped.
\<close>

theorem C4_label_delta_pass_witness:
  "api_historyTypes label_api = Some [''messageAdded'', ''labelAdded''] \<and>
   filterHistory label_api [entry_added, entry_label] = Inr [entry_added]"
proof -
  have h: "api_historyTypes label_api = Some [''messageAdded'', ''labelAdded'']"
    by (simp add: label_api_def label_options_def eval_options Gmailpush_def)
  have a: "api_addedLabelIds label_api = Some [''X'']" "api_removedLabelIds label_api = None"
    by (simp_all add: label_api_def label_options_def eval_options Gmailpush_def)
  have k: "filteredWithHistoryTypes [''messageAdded'', ''labelAdded''] [entry_added, entry_label] =
           [entry_added, entry_label]"
    by (simp add: filteredWithHistoryTypes_def makeHistoryTypePlural_valid hasOwnProperty_def
          entry_added_def entry_label_def)
  have l: "labelsAdded entry_added = None"
    "labelsAdded entry_label = Some [\<lparr>lc_message = ''m2'', lc_labelIds = [''UNREAD'']\<rparr>]"
    by (simp_all add: entry_added_def entry_label_def)
  from C4_label_delta_pass[OF h, of "[entry_added, entry_label]"]
  have "filterHistory label_api [entry_added, entry_label] = Inr [entry_added]"
    by (simp add: k a l)
  with h show ?thesis by simp
qed

section \<open>The record filter\<close>







lemma getMessageFromId_frame:
  "this_api (snd (getMessageFromId E i W)) = this_api W \<and>
   disk (snd (getMessageFromId E i W)) = disk W"
  by (simp add: getMessageFromId_def Let_def split: sum.splits)








lemma promise_all_length: "promise_all E rs = Inr vs \<Longrightarrow> length vs = length rs"
proof -
  have "rejections rs = [] \<Longrightarrow> length (fulfilments rs) = length rs" for rs :: "(error + 'a) list"
    by (induction rs rule: rejections.induct) simp_all
  then show "promise_all E rs = Inr vs \<Longrightarrow> length vs = length rs"
    by (auto simp: promise_all_def split: list.splits)
qed










section \<open>The record resolver\<close>

lemma rejections_nonempty: "Inl err \<in> set rs \<Longrightarrow> rejections rs \<noteq> []"
  by (induction rs rule: rejections.induct) auto

lemma promise_all_rejects: "Inl err \<in> set rs \<Longrightarrow> \<exists>e. promise_all E rs = Inl e"
  using rejections_nonempty[of err rs] by (auto simp: promise_all_def split: list.splits)

text \<open>
  A request that fails with another error than "Not Found" makes the requests of its
  entry, taken together, reject.
\<close>

lemma resolveMessages_rejects:
  assumes "i \<in> set refs"
    and "users_messages_get E i (api_emailAddress (this_api W)) = Inl err"
    and "message err \<noteq> ''Not Found''"
  shows "\<exists>e. promise_all E (fst (resolveMessages E h refs W)) = Inl e"
proof -
  have "Inl err \<in> set (fst (resolveMessages E h refs W))"
    using assms(1,2)
  proof (induction refs arbitrary: W)
    case Nil
    then show ?case by simp
  next
    case (Cons r refs)
    obtain x W1 where g: "getMessageFromId E r W = (x, W1)" by (cases "getMessageFromId E r W")
    with getMessageFromId_frame[of E r W] have W1: "this_api W1 = this_api W" by simp
    obtain rs W2 where rr: "resolveMessages E h refs W1 = (rs, W2)"
      by (cases "resolveMessages E h refs W1")
    show ?case
    proof (cases "i = r")
      case True
      with Cons.prems(2) assms(3) g have "x = Inl err"
        by (auto simp: getMessageFromId_def Let_def)
      with g rr show ?thesis by simp
    next
      case False
      with Cons.prems(1) have "i \<in> set refs" by simp
      from Cons.IH[OF this, of W1] Cons.prems(2) W1 rr have "Inl err \<in> set rs" by simp
      with g rr show ?thesis by simp
    qed
  qed
  then show ?thesis by (rule promise_all_rejects)
qed

text \<open>
  C8. A "Not Found" answer of the provider resolves to the stub with the requested
  id, an empty list of attachments and \<open>notFound\<close>, which the parser passes on with
  its history type; every other error is the rejection of the resolution, and of the
  requests of the entry it belongs to; an answer is returned as it is.
\<close>

theorem C8_not_found_resolves_to_stub:
  "(\<forall>err. users_messages_get E messageId (api_emailAddress (this_api W)) = Inl err \<and>
          message err = ''Not Found'' \<longrightarrow>
      fst (getMessageFromId E messageId W) = Inr (stub messageId) \<and>
      (\<exists>ht. parseMessage b64 (stub messageId) h = Inr ((stub messageId)\<lparr>historyType := Some ht\<rparr>))) \<and>
   (\<forall>err. users_messages_get E messageId (api_emailAddress (this_api W)) = Inl err \<and>
          message err \<noteq> ''Not Found'' \<longrightarrow>
      fst (getMessageFromId E messageId W) = Inl err \<and>
      (messageId \<in> set refs \<longrightarrow> (\<exists>e. promise_all E (fst (resolveMessages E h refs W)) = Inl e))) \<and>
   (\<forall>m. users_messages_get E messageId (api_emailAddress (this_api W)) = Inr m \<longrightarrow>
      fst (getMessageFromId E messageId W) = Inr m)"
proof (intro conjI allI impI)
  fix err
  assume "users_messages_get E messageId (api_emailAddress (this_api W)) = Inl err \<and>
          message err = ''Not Found''"
  then show "fst (getMessageFromId E messageId W) = Inr (stub messageId)"
    by (simp add: getMessageFromId_def Let_def stub_def)
next
  fix err
  show "\<exists>ht. parseMessage b64 (stub messageId) h = Inr ((stub messageId)\<lparr>historyType := Some ht\<rparr>)"
    by (simp add: parseMessage_def stub_def)
next
  fix err
  assume "users_messages_get E messageId (api_emailAddress (this_api W)) = Inl err \<and>
          message err \<noteq> ''Not Found''"
  then show "fst (getMessageFromId E messageId W) = Inl err"
    by (simp add: getMessageFromId_def Let_def)
next
  fix err
  assume a: "users_messages_get E messageId (api_emailAddress (this_api W)) = Inl err \<and>
          message err \<noteq> ''Not Found''"
    and i: "messageId \<in> set refs"
  from resolveMessages_rejects[OF i, of E W err h] a
  show "\<exists>e. promise_all E (fst (resolveMessages E h refs W)) = Inl e" by simp
next
  fix m
  assume "users_messages_get E messageId (api_emailAddress (this_api W)) = Inr m"
  then show "fst (getMessageFromId E messageId W) = Inr m"
    by (simp add: getMessageFromId_def Let_def)
qed

text \<open>
  The provider answers "Not Found" for the id \<^verbatim>\<open>abc\<close>: the resolution returns
  \<^verbatim>\<open>{id: 'abc', attachments: [], notFound: true}\<close>.
\<close>

theorem C8_not_found_resolves_to_stub_witness:
  "users_messages_get quiet_env ''abc'' (api_emailAddress (this_api world1)) =
     Inl (Error ''Not Found'') \<and>
   message (Error ''Not Found'') = ''Not Found'' \<and>
   fst (getMessageFromId quiet_env ''abc'' world1) = Inr (stub ''abc'') \<and>
   m_id (stub ''abc'') = ''abc'' \<and> attachments (stub ''abc'') = Some [] \<and>
   notFound (stub ''abc'')"
proof -
  have g: "users_messages_get quiet_env ''abc'' (api_emailAddress (this_api world1)) =
     Inl (Error ''Not Found'')"
    by (simp add: quiet_env_def)
  have m: "message (Error ''Not Found'') = ''Not Found''" by simp
  from C8_not_found_resolves_to_stub[of quiet_env "''abc''" world1 "\<lambda>s. s" entry_added "[]"] g m
  have "fst (getMessageFromId quiet_env ''abc'' world1) = Inr (stub ''abc'')"
    by blast
  with g m show ?thesis by (simp add: stub_def)
qed

section \<open>Address headers\<close>

text \<open>
  What a match of the pattern captures: a pattern of one character consumes one
  character and captures nothing, a starred one consumes a prefix; the second group
  consumes a prefix that contains \<^verbatim>\<open>@\<close>, and it is the last capture made.
\<close>

lemma matches_atom:
  "atom r \<Longrightarrow> (s', c') \<in> set (matches r s c) \<Longrightarrow> c' = c \<and> (\<exists>x. s = x # s')"
  by (cases r) (auto simp: atom_def split: list.splits if_splits)

lemma matches_Seq:
  "((s', c') \<in> set (matches (Seq r1 r2) s c)) =
     (\<exists>s1 c1. (s1, c1) \<in> set (matches r1 s c) \<and> (s', c') \<in> set (matches r2 s1 c1))"
  by auto

lemma matches_Opt:
  "(s', c') \<in> set (matches (Opt r) s c) \<Longrightarrow>
     (s', c') = (s, c) \<or> (s', c') \<in> set (matches r s c)"
  by auto

lemma matches_Star_atom:
  "atom r \<Longrightarrow> (s', c') \<in> set (matches (Star r) s c) \<Longrightarrow> c' = c \<and> (\<exists>p. s = p @ s')"
proof (induction s arbitrary: s' c' rule: length_induct)
  case (1 s)
  from 1(3) have "(s', c') = (s, c) \<or>
      (\<exists>s1 c1. (s1, c1) \<in> set (matches r s c) \<and> length s1 < length s \<and>
         (s', c') \<in> set (matches (Star r) s1 c1))"
    by (subst (asm) matches.simps(7)) (auto split: if_splits)
  then consider "(s', c') = (s, c)"
    | s1 c1 where "(s1, c1) \<in> set (matches r s c)" "length s1 < length s"
        "(s', c') \<in> set (matches (Star r) s1 c1)"
    by blast
  then show ?case
  proof cases
    case 1
    then show ?thesis by simp
  next
    case 2
    from matches_atom[OF 1(2) 2(1)] obtain x where x: "c1 = c" "s = x # s1" by auto
    from 1(1)[rule_format, OF 2(2) 1(2)] 2(3) x(1) obtain p where "c' = c" "s1 = p @ s'"
      by blast
    with x show ?thesis by (auto intro: exI[of _ "x # p"])
  qed
qed

lemma matches_addr_rx:
  assumes "(s', c') \<in> set (matches addr_rx s c)"
  shows "c' = c \<and> (\<exists>p. s = p @ s' \<and> CHR ''@'' \<in> set p)"
proof -
  from assms obtain s1 c1 s2 c2 s3 c3 s4 c4 where
    a: "(s1, c1) \<in> set (matches Dot s c)"
      "(s2, c2) \<in> set (matches (Star Dot) s1 c1)"
      "(s3, c3) \<in> set (matches (Chr CHR ''@'') s2 c2)"
      "(s4, c4) \<in> set (matches (NotChr CHR ''>'') s3 c3)"
      "(s', c') \<in> set (matches (Star (NotChr CHR ''>'')) s4 c4)"
    unfolding addr_rx_def Plus_def matches_Seq by blast
  from matches_atom[OF _ a(1)] obtain x1 where 1: "c1 = c" "s = x1 # s1" by (auto simp: atom_def)
  from matches_Star_atom[OF _ a(2)] obtain p2 where 2: "c2 = c1" "s1 = p2 @ s2"
    by (auto simp: atom_def)
  from a(3) have 3: "c3 = c2" "s2 = CHR ''@'' # s3" by (auto split: list.splits if_splits)
  from matches_atom[OF _ a(4)] obtain x4 where 4: "c4 = c3" "s3 = x4 # s4" by (auto simp: atom_def)
  from matches_Star_atom[OF _ a(5)] obtain p5 where 5: "c' = c4" "s4 = p5 @ s'"
    by (auto simp: atom_def)
  have "s = (x1 # p2 @ CHR ''@'' # x4 # p5) @ s'" using 1 2 3 4 5 by simp
  moreover have "CHR ''@'' \<in> set (x1 # p2 @ CHR ''@'' # x4 # p5)" by simp
  ultimately show ?thesis using 1 2 3 4 5 by blast
qed

lemma matches_email_rx:
  assumes "(s', c') \<in> set (matches email_rx s c)"
  shows "\<exists>a. map_of c' 2 = Some a \<and> CHR ''@'' \<in> set a"
proof -
  from assms obtain s1 c1 s2 c2 s3 c3 where
    a: "(s2, c2) \<in> set (matches (Opt (Chr CHR ''<'')) s1 c1)"
      "(s3, c3) \<in> set (matches (Grp 2 addr_rx) s2 c2)"
      "(s', c') \<in> set (matches (Opt (Chr CHR ''>'')) s3 c3)"
    unfolding email_rx_def matches_Seq by blast
  from a(2) obtain s4 c4 where g: "(s4, c4) \<in> set (matches addr_rx s2 c2)"
    "s3 = s4" "c3 = (2, take (length s2 - length s4) s2) # c4"
    by auto
  from matches_addr_rx[OF g(1)] obtain p where p: "s2 = p @ s4" "CHR ''@'' \<in> set p" by blast
  then have "take (length s2 - length s4) s2 = p" by simp
  with g have c3: "c3 = (2, p) # c4" by simp
  from matches_Opt[OF a(3)] have "c' = c3" by (auto split: list.splits if_splits)
  with c3 p show ?thesis by simp
qed

lemma search_in_matches:
  "search r s = Some c \<Longrightarrow> \<exists>s0 s'. (s', c) \<in> set (matches r s0 [])"
proof (induction s)
  case Nil
  then obtain s' rest where "matches r [] [] = (s', c) # rest"
    by (subst (asm) search.simps) (auto split: list.splits)
  then have "(s', c) \<in> set (matches r [] [])" by simp
  then show ?case by blast
next
  case (Cons x xs)
  show ?case
  proof (cases "matches r (x # xs) []")
    case Nil
    with Cons.prems have "search r xs = Some c"
      by (subst (asm) search.simps) simp
    then show ?thesis by (rule Cons.IH)
  next
    case (Cons m rest)
    with Cons.prems obtain s' where "m = (s', c)"
      by (subst (asm) search.simps) (auto split: prod.splits)
    with Cons have "(s', c) \<in> set (matches r (x # xs) [])" by simp
    then show ?thesis by blast
  qed
qed

lemma search_email_rx_address:
  assumes "search email_rx h = Some c"
  shows "\<exists>a. map_of c 2 = Some a \<and> CHR ''@'' \<in> set a"
  using search_in_matches[OF assms] matches_email_rx by blast

lemma search_user1:
  "search email_rx ''user1 <user1@gmail.com>'' = Some [(2, ''user1@gmail.com''), (1, ''user1'')]"
  by code_simp

lemma search_user2: "search email_rx ''user2@'' = None"
  by code_simp

text \<open>
  The truncated \<^verbatim>\<open>To\<close> header of the documentation and the list it is documented
  to give.
\<close>

lemma addressList_truncated_header:
  "addressList
     (Some \<lparr>h_name = ''To'', h_value = ''user1@example.com <user1@example.com>, user2@''\<rparr>) =
   Some [\<lparr>name = Some ''user1@example.com'', address = Some ''user1@example.com''\<rparr>,
         \<lparr>name = Some ''user2@'', address = Some ''user2@''\<rparr>]"
  by code_simp

text \<open>
  Both fields of the result are defined strings: the name is empty only for an empty
  header, and the address is the header itself or contains \<^verbatim>\<open>@\<close>.
\<close>

lemma parseEmailAddressHeader_defined:
  "\<exists>n a. parseEmailAddressHeader h = \<lparr>name = Some n, address = Some a\<rparr> \<and>
     (n \<noteq> [] \<or> h = []) \<and> (a = h \<or> CHR ''@'' \<in> set a)"
proof (cases "search email_rx h")
  case None
  then show ?thesis by (simp add: parseEmailAddressHeader_def)
next
  case (Some c)
  from search_email_rx_address[OF Some] obtain a where
    a: "map_of c 2 = Some a" "CHR ''@'' \<in> set a" by blast
  then have "a \<noteq> []" by auto
  with Some a show ?thesis
    by (cases "map_of c 1") (auto simp: parseEmailAddressHeader_def js_or_def truthy_def)
qed

text \<open>
  C9. When the pattern matches, the address is the second capture and the name is the
  first capture, or the second when the first is undefined or empty; when it does not
  match, the header is returned as both. The function has no failing branch, and both
  fields of its result are always defined. The two examples of the claim evaluate as it
  says.
\<close>

theorem C9_parseEmailAddressHeader:
  "(\<forall>parsedHeader. search email_rx emailAddressHeader = Some parsedHeader \<longrightarrow>
      address (parseEmailAddressHeader emailAddressHeader) = map_of parsedHeader 2 \<and>
      name (parseEmailAddressHeader emailAddressHeader) =
        (if map_of parsedHeader 1 = None \<or> map_of parsedHeader 1 = Some []
         then map_of parsedHeader 2 else map_of parsedHeader 1)) \<and>
   (search email_rx emailAddressHeader = None \<longrightarrow>
      parseEmailAddressHeader emailAddressHeader =
        \<lparr>name = Some emailAddressHeader, address = Some emailAddressHeader\<rparr>) \<and>
   (\<exists>n a. parseEmailAddressHeader emailAddressHeader = \<lparr>name = Some n, address = Some a\<rparr> \<and>
      (n \<noteq> [] \<or> emailAddressHeader = []) \<and> (a = emailAddressHeader \<or> CHR ''@'' \<in> set a)) \<and>
   parseEmailAddressHeader ''user1 <user1@gmail.com>'' =
     \<lparr>name = Some ''user1'', address = Some ''user1@gmail.com''\<rparr> \<and>
   parseEmailAddressHeader ''user2@'' = \<lparr>name = Some ''user2@'', address = Some ''user2@''\<rparr>"
proof (intro conjI allI impI)
  fix parsedHeader
  assume s: "search email_rx emailAddressHeader = Some parsedHeader"
  then show "address (parseEmailAddressHeader emailAddressHeader) = map_of parsedHeader 2"
    by (simp add: parseEmailAddressHeader_def)
  from s show "name (parseEmailAddressHeader emailAddressHeader) =
        (if map_of parsedHeader 1 = None \<or> map_of parsedHeader 1 = Some []
         then map_of parsedHeader 2 else map_of parsedHeader 1)"
    by (auto simp: parseEmailAddressHeader_def js_or_def truthy_def split: option.splits)
next
  assume "search email_rx emailAddressHeader = None"
  then show "parseEmailAddressHeader emailAddressHeader =
        \<lparr>name = Some emailAddressHeader, address = Some emailAddressHeader\<rparr>"
    by (simp add: parseEmailAddressHeader_def)
next
  show "\<exists>n a. parseEmailAddressHeader emailAddressHeader = \<lparr>name = Some n, address = Some a\<rparr> \<and>
      (n \<noteq> [] \<or> emailAddressHeader = []) \<and> (a = emailAddressHeader \<or> CHR ''@'' \<in> set a)"
    by (rule parseEmailAddressHeader_defined)
next
  show "parseEmailAddressHeader ''user1 <user1@gmail.com>'' =
     \<lparr>name = Some ''user1'', address = Some ''user1@gmail.com''\<rparr>"
    unfolding parseEmailAddressHeader_def search_user1 by (simp add: js_or_def truthy_def)
  show "parseEmailAddressHeader ''user2@'' = \<lparr>name = Some ''user2@'', address = Some ''user2@''\<rparr>"
    unfolding parseEmailAddressHeader_def search_user2 by simp
qed

text \<open>
  The header \<^verbatim>\<open>user1@example.com <user1@example.com>\<close> of the documentation: the
  pattern matches, and the name and the address are the two captures.
\<close>

theorem C9_parseEmailAddressHeader_witness:
  "search email_rx ''user1@example.com <user1@example.com>'' =
     Some [(2, ''user1@example.com''), (1, ''user1@example.com'')] \<and>
   address (parseEmailAddressHeader ''user1@example.com <user1@example.com>'') =
     Some ''user1@example.com'' \<and>
   name (parseEmailAddressHeader ''user1@example.com <user1@example.com>'') =
     Some ''user1@example.com''"
proof -
  have s: "search email_rx ''user1@example.com <user1@example.com>'' =
     Some [(2, ''user1@example.com''), (1, ''user1@example.com'')]"
    by code_simp
  note C9_parseEmailAddressHeader
    [of "''user1@example.com <user1@example.com>''", THEN conjunct1, rule_format, OF s]
  then show ?thesis unfolding s by simp
qed

section \<open>Option validation\<close>

lemma setApiPropertiesWithProps_no_historyTypes:
  assumes "historyTypes props = None"
    and "addedLabelIds props \<noteq> None \<or> removedLabelIds props \<noteq> None"
  shows "fst (setApiPropertiesWithProps props A) =
           Inl (TypeError ''Cannot read properties of undefined (reading includes)'')"
  using assms
  by (auto simp: setApiPropertiesWithProps_def Let_def split: option.splits)

text \<open>
  C10. A call of \<^verbatim>\<open>getMessagesWithoutAttachment\<close> or \<^verbatim>\<open>getMessages\<close> with
  added or removed label ids and without history types rejects before any request and
  any access to the file; when the options are otherwise well formed the error is the
  \<^verbatim>\<open>TypeError\<close> of reading \<^verbatim>\<open>includes\<close> of the absent
  \<^verbatim>\<open>props.historyTypes\<close>, so the default history types never serve as the
  requested kinds.
\<close>

theorem C10_label_ids_without_historyTypes:
  assumes "historyTypes opts = None"
    and "addedLabelIds opts \<noteq> None \<or> removedLabelIds opts \<noteq> None"
  shows "\<exists>err W'. getMessagesWithoutAttachment E (Some opts) W = Some (Inl err, W') \<and>
           getMessages E (Some opts) W = Some (Inl err, W') \<and>
           io W' = io W \<and> disk W' = disk W \<and>
           (getPropsFromOptions (Some opts) retrieval_rules = Inr opts \<longrightarrow>
              err = TypeError ''Cannot read properties of undefined (reading includes)'')"
proof (cases "getPropsFromOptions (Some opts) retrieval_rules")
  case (Inl err)
  then have "getMessagesWithoutAttachment E (Some opts) W = Some (Inl err, W)"
    by (simp add: getMessagesWithoutAttachment_def)
  moreover from this have "getMessages E (Some opts) W = Some (Inl err, W)"
    by (simp add: getMessages_def)
  ultimately show ?thesis using Inl by auto
next
  case (Inr props)
  then have props: "props = opts"
    by (auto simp: getPropsFromOptions_def Let_def split: if_splits)
  obtain x A where s: "setApiPropertiesWithProps opts (this_api W) = (x, A)"
    by (cases "setApiPropertiesWithProps opts (this_api W)")
  with setApiPropertiesWithProps_no_historyTypes[OF assms, of "this_api W"]
  have x: "x = Inl (TypeError ''Cannot read properties of undefined (reading includes)'')"
    by simp
  from Inr props s x
  have g: "getMessagesWithoutAttachment E (Some opts) W =
        Some (Inl (TypeError ''Cannot read properties of undefined (reading includes)''),
              W\<lparr>this_api := A\<rparr>)"
    by (simp add: getMessagesWithoutAttachment_def)
  then have "getMessages E (Some opts) W =
        Some (Inl (TypeError ''Cannot read properties of undefined (reading includes)''),
              W\<lparr>this_api := A\<rparr>)"
    by (simp add: getMessages_def)
  with g show ?thesis by simp
qed

text \<open>
  The options \<^verbatim>\<open>{notification, token, addedLabelIds: ['X']}\<close>: the call rejects
  with the \<^verbatim>\<open>TypeError\<close>, and the trace of the call is empty.
\<close>

theorem C10_label_ids_without_historyTypes_witness:
  "historyTypes (added_only_options (notify ''user1@gmail.com'' 150)) = None \<and>
   addedLabelIds (added_only_options (notify ''user1@gmail.com'' 150)) = Some [''X''] \<and>
   map_option fst (getMessagesWithoutAttachment quiet_env
       (Some (added_only_options (notify ''user1@gmail.com'' 150))) world1) =
     Some (Inl (TypeError ''Cannot read properties of undefined (reading includes)'')) \<and>
   map_option (\<lambda>y. io (snd y)) (getMessagesWithoutAttachment quiet_env
       (Some (added_only_options (notify ''user1@gmail.com'' 150))) world1) = Some []"
proof -
  have h: "historyTypes (added_only_options (notify ''user1@gmail.com'' 150)) = None"
    by (simp add: added_only_options_def plain_options_def)
  have a: "addedLabelIds (added_only_options (notify ''user1@gmail.com'' 150)) = Some [''X'']"
    by (simp add: added_only_options_def plain_options_def)
  then have a': "addedLabelIds (added_only_options (notify ''user1@gmail.com'' 150)) \<noteq> None \<or>
      removedLabelIds (added_only_options (notify ''user1@gmail.com'' 150)) \<noteq> None"
    by simp
  have v: "getPropsFromOptions (Some (added_only_options (notify ''user1@gmail.com'' 150)))
             retrieval_rules = Inr (added_only_options (notify ''user1@gmail.com'' 150))"
    by (simp add: added_only_options_def notify_def eval_options)
  have i: "io world1 = []" by (simp add: world1_def world0_def)
  from C10_label_ids_without_historyTypes[OF h a', of quiet_env world1] v i
  obtain W' where "getMessagesWithoutAttachment quiet_env
       (Some (added_only_options (notify ''user1@gmail.com'' 150))) world1 =
     Some (Inl (TypeError ''Cannot read properties of undefined (reading includes)''), W')"
    and "io W' = []"
    by auto
  with h a show ?thesis by simp
qed

end
